theory Spec2Isabelle
  imports Complex_Main "HOL-Library.AList" "HOL-Library.Log_Nat"
begin

section \<open>The game client of game.js\<close>

text \<open>
  The browser client of game.js is a class \<open>Avatar\<close> and a class \<open>GameClient\<close> whose
  methods run as callbacks of one event loop. The embedding keeps the fields of both
  classes as records and every method that changes the client as a function from the
  state to the new state. What the host does for the client is part of the state: the
  calls made on the socket (\<open>socket_calls\<close>), the item stored under the key
  \<open>mmorpg_score\<close> (\<open>localStorage\<close>) and the timeouts that are scheduled and have
  not fired yet (\<open>timers\<close>). Drawing on the canvas and console output are left out.

  Numbers: coordinates and sizes are \<open>real\<close>, where the rounding of IEEE doubles and
  the value NaN are outside the model; the cooldown and the clock are \<open>int\<close>
  (milliseconds, far below \<open>2^53\<close>); the counters of the score are numbers of
  JavaScript, with the rounding of doubles (\<open>number\<close>, below). Player ids are
  strings, the keys of the \<open>players\<close> map. The messages of the server are typed:
  a field that the code tests before it reads it is an \<open>option\<close>, every other field
  is present, and an animation frame is an integer.

  A call of the socket's \<open>send\<close> is recorded, not what the host makes of it. The
  constructor of the socket is called with a constant URL with the scheme wss, for
  which it does not throw, so that the catch branch of \<open>connectToServer\<close> has no
  part in the model. A payload that \<open>JSON.parse\<close> rejects ends the message callback
  before \<open>handleMessage\<close> and changes nothing; it is no event here.
\<close>

subsection \<open>Avatar\<close>

datatype image = Image string

record frames =
  north :: "image list"
  south :: "image list"
  east :: "image list"

text \<open>
  The fields \<open>id\<close>, \<open>x\<close> and \<open>y\<close> of an avatar are \<open>av_id\<close>, \<open>av_x\<close> and \<open>av_y\<close>
  here. \<open>oid\<close> is the identity of the JavaScript object: a closure that captured an
  avatar finds it again by \<open>oid\<close>, not by the key it had in the map.
\<close>

record avatar =
  oid :: nat
  av_id :: string
  username :: string
  av_x :: real
  av_y :: real
  facing :: string
  isMoving :: bool
  animationFrame :: int
  avatarName :: string
  isDead :: bool
  frames :: frames
  avatarSize :: real

text \<open>What the server sends about a player, and about an avatar type.\<close>

record player_data =
  pd_id :: string
  pd_username :: string
  pd_x :: real
  pd_y :: real
  pd_facing :: string
  pd_isMoving :: bool
  pd_animationFrame :: "int option"
  pd_avatar :: string

record frames_data =
  fd_north :: "string list option"
  fd_south :: "string list option"
  fd_east :: "string list option"

record avatar_data =
  ad_name :: string
  ad_frames :: frames_data

definition loadAvatarFrames :: "frames_data \<Rightarrow> avatar \<Rightarrow> avatar" where
  "loadAvatarFrames fd a =
     (let a1 = (case fd_north fd of None \<Rightarrow> a
                | Some l \<Rightarrow> a\<lparr>frames := (frames a)\<lparr>north := map Image l\<rparr>\<rparr>);
          a2 = (case fd_south fd of None \<Rightarrow> a1
                | Some l \<Rightarrow> a1\<lparr>frames := (frames a1)\<lparr>south := map Image l\<rparr>\<rparr>);
          a3 = (case fd_east fd of None \<Rightarrow> a2
                | Some l \<Rightarrow> a2\<lparr>frames := (frames a2)\<lparr>east := map Image l\<rparr>\<rparr>)
      in a3)"

definition new_Avatar :: "nat \<Rightarrow> player_data \<Rightarrow> avatar_data option \<Rightarrow> avatar" where
  "new_Avatar n pd ad =
     (let a = \<lparr>oid = n, av_id = pd_id pd, username = pd_username pd,
                av_x = pd_x pd, av_y = pd_y pd, facing = pd_facing pd,
                isMoving = pd_isMoving pd,
                animationFrame = (case pd_animationFrame pd of None \<Rightarrow> 0 | Some k \<Rightarrow> k),
                avatarName = pd_avatar pd, isDead = False,
                frames = \<lparr>north = [], south = [], east = []\<rparr>,
                avatarSize = 32\<rparr>
      in case ad of None \<Rightarrow> a | Some d \<Rightarrow> loadAvatarFrames (ad_frames d) a)"

definition avatar_update :: "player_data \<Rightarrow> avatar \<Rightarrow> avatar" where
  "avatar_update pd a =
     a\<lparr>av_x := pd_x pd, av_y := pd_y pd, facing := pd_facing pd,
       isMoving := pd_isMoving pd,
       animationFrame := (case pd_animationFrame pd of None \<Rightarrow> 0 | Some k \<Rightarrow> k)\<rparr>"

text \<open>
  The remainder of JavaScript takes the sign of the dividend. An array read at an index
  that is not one of its positions is \<open>undefined\<close>: \<open>None\<close>.
\<close>

definition js_rem :: "int \<Rightarrow> int \<Rightarrow> int" where
  "js_rem a b = (if 0 \<le> a then a mod \<bar>b\<bar> else - ((- a) mod \<bar>b\<bar>))"

definition js_index :: "'a list \<Rightarrow> int \<Rightarrow> 'a option" where
  "js_index xs i = (if 0 \<le> i \<and> i < int (length xs) then Some (xs ! nat i) else None)"

record frame =
  image :: "image option"
  flipHorizontal :: bool

text \<open>The switch of \<open>getCurrentFrame\<close>: the sequence of frames and the flip flag.\<close>

definition frameSetFor :: "avatar \<Rightarrow> image list \<times> bool" where
  "frameSetFor a =
     (if facing a = ''north'' then (north (frames a), False)
      else if facing a = ''south'' then (south (frames a), False)
      else if facing a = ''east'' then (east (frames a), False)
      else if facing a = ''west'' then (east (frames a), True)
      else (south (frames a), False))"

definition getCurrentFrame :: "avatar \<Rightarrow> frame option" where
  "getCurrentFrame a =
     (let (frameSet, flip) = frameSetFor a
      in if length frameSet > 0
         then (let frameIndex = (if isMoving a then animationFrame a else 0)
               in Some \<lparr>image = js_index frameSet (js_rem frameIndex (int (length frameSet))),
                         flipHorizontal = flip\<rparr>)
         else None)"

subsection \<open>The state of the client\<close>

text \<open>
  The numbers of JavaScript are the IEEE doubles: here the finite ones by their value,
  a rational (the two zeros are one), with NaN and the two infinities. \<open>to_double\<close>
  rounds a rational to the nearest double, a tie to the even significand:
  \<open>binade\<close> is the exponent of the power of two at or below a positive rational, the
  last place of a double has the exponent \<open>binade - 52\<close>, not below \<open>- 1074\<close>, and a
  result of \<open>2^1024\<close> or more is an infinity.
\<close>

datatype number = Fin rat | NaN | PInf | NInf

definition round_half_even :: "rat \<Rightarrow> int" where
  "round_half_even x =
     (let f = \<lfloor>x\<rfloor>; d = x - of_int f
      in if d < 1 / 2 then f else if 1 / 2 < d then f + 1 else if even f then f else f + 1)"

definition binade :: "rat \<Rightarrow> int" where
  "binade a = (if 1 \<le> a then bitlen \<lfloor>a\<rfloor> - 1 else - bitlen (\<lceil>1 / a\<rceil> - 1))"

definition to_double :: "rat \<Rightarrow> number" where
  "to_double q =
     (if q = 0 then Fin 0
      else (let a = \<bar>q\<bar>;
                u = max (binade a) (- 1022) - 52;
                r = of_int (round_half_even (a / 2 powi u)) * 2 powi u
            in if 2 ^ 1024 \<le> r then (if 0 < q then PInf else NInf) else Fin (sgn q * r)))"

fun num_neg :: "number \<Rightarrow> number" where
  "num_neg (Fin a) = Fin (- a)"
| "num_neg NaN = NaN"
| "num_neg PInf = NInf"
| "num_neg NInf = PInf"

fun num_add :: "number \<Rightarrow> number \<Rightarrow> number" where
  "num_add (Fin a) (Fin b) = to_double (a + b)"
| "num_add NaN y = NaN"
| "num_add x NaN = NaN"
| "num_add PInf NInf = NaN"
| "num_add NInf PInf = NaN"
| "num_add PInf y = PInf"
| "num_add NInf y = NInf"
| "num_add x PInf = PInf"
| "num_add x NInf = NInf"

definition num_sub :: "number \<Rightarrow> number \<Rightarrow> number" where
  "num_sub x y = num_add x (num_neg y)"

text \<open>
  A value of a property of the score object: the property is missing
  (\<open>Undefined\<close>), or it is null, a boolean, a number, or another value (a string, an
  array or an object) with the number that \<open>ToNumber\<close> makes of it. The client does
  nothing with such a value but convert it to a number and write it back to the storage.
\<close>

datatype jsval = Undefined | Null | Boolean bool | Number number | Other number

fun ToNumber :: "jsval \<Rightarrow> number" where
  "ToNumber Undefined = NaN"
| "ToNumber Null = Fin 0"
| "ToNumber (Boolean b) = Fin (if b then 1 else 0)"
| "ToNumber (Number n) = n"
| "ToNumber (Other n) = n"

text \<open>
  The score object, by the three properties the client reads. \<open>isArray\<close> says that the
  object is an array (a stored text may hold one): an array keeps the three
  properties while it lives, and loses them in \<open>JSON.stringify\<close>. Other properties, and
  the elements of an array, are read by nothing and are left out.
\<close>

record score =
  kills :: jsval
  deaths :: jsval
  total :: jsval
  isArray :: bool

text \<open>
  What \<open>JSON.parse\<close> returns for a text: null, a primitive (a boolean, a number or a
  string), or an object, which may be an array.
\<close>

datatype parsed = PNull | PPrimitive | PObject score

text \<open>
  The item of the local storage under the key \<open>mmorpg_score\<close>, as \<open>loadScore\<close> meets
  it: no item, the empty string, a text that \<open>JSON.parse\<close> rejects, or a text that
  \<open>JSON.parse\<close> accepts, with the value it returns.
\<close>

datatype persisted = Missing | EmptyText | Unparseable | Parsed parsed

datatype error = SyntaxError | TypeError

datatype game_state = Playing | Paused | Stopped

datatype out_msg = JoinGame string | Move string | Stop | Attack string

datatype websocket = WebSocket string

datatype socket_call = Connect websocket | Close | Send out_msg

datatype timer = AttackFallback string | SimulatedRespawn nat

record client =
  worldWidth :: real
  worldHeight :: real
  myPlayerId :: "string option"
  players :: "(string \<times> avatar) list"
  avatars :: "(string \<times> avatar_data) list"
  websocket :: "websocket option"
  connected :: bool
  viewportOffsetX :: real
  viewportOffsetY :: real
  viewportInitialized :: bool
  pressedKeys :: "string set"
  attackCooldown :: int
  attackCooldownTime :: int
  attackRange :: real
  score :: score
  gameState :: game_state
  pauseStartTime :: int
  totalPauseTime :: int
  canvas_width :: real
  canvas_height :: real
  localStorage :: persisted
  socket_calls :: "socket_call list"
  timers :: "(timer \<times> nat) list"
  next_oid :: nat

subsection \<open>Score\<close>

text \<open>The score object with three integers for its properties.\<close>

definition plain_score :: "int \<Rightarrow> int \<Rightarrow> int \<Rightarrow> score" where
  "plain_score k d t =
     \<lparr>kills = Number (Fin (of_int k)), deaths = Number (Fin (of_int d)),
      total = Number (Fin (of_int t)), isArray = False\<rparr>"

definition zero_score :: score where
  "zero_score = plain_score 0 0 0"

definition updateTotalScore :: "client \<Rightarrow> client" where
  "updateTotalScore s =
     s\<lparr>score := (score s)
            \<lparr>total := Number (num_sub (ToNumber (kills (score s))) (ToNumber (deaths (score s))))\<rparr>\<rparr>"

text \<open>
  \<open>saveScore\<close> stores the text of \<open>JSON.stringify\<close>; \<open>stringified\<close> is the value
  that \<open>JSON.parse\<close> returns for that text. A number that is not finite is written as
  null, a missing property is not written, and an array is written without the three
  properties. That \<open>setItem\<close> may fail for want of space is outside the model.
\<close>

fun json_of :: "jsval \<Rightarrow> jsval" where
  "json_of (Number (Fin q)) = Number (Fin q)"
| "json_of (Number n) = Null"
| "json_of v = v"

definition stringified :: "score \<Rightarrow> score" where
  "stringified r =
     (if isArray r
      then \<lparr>kills = Undefined, deaths = Undefined, total = Undefined, isArray = True\<rparr>
      else \<lparr>kills = json_of (kills r), deaths = json_of (deaths r),
            total = json_of (total r), isArray = False\<rparr>)"

definition saveScore :: "client \<Rightarrow> client" where
  "saveScore s = s\<lparr>localStorage := Parsed (PObject (stringified (score s)))\<rparr>"

definition addKill :: "client \<Rightarrow> client" where
  "addKill s =
     saveScore (updateTotalScore
       (s\<lparr>score := (score s)\<lparr>kills := Number (num_add (ToNumber (kills (score s))) (Fin 1))\<rparr>\<rparr>))"

definition addDeath :: "client \<Rightarrow> client" where
  "addDeath s =
     saveScore (updateTotalScore
       (s\<lparr>score := (score s)\<lparr>deaths := Number (num_add (ToNumber (deaths (score s))) (Fin 1))\<rparr>\<rparr>))"

definition resetScore :: "client \<Rightarrow> client" where
  "resetScore s = saveScore (s\<lparr>score := zero_score\<rparr>)"

text \<open>
  \<open>loadScore\<close> runs in the constructor. The item is read; a truthy text is parsed, and
  the error of \<open>JSON.parse\<close> is not caught. The value parsed becomes the score, and
  \<open>updateTotalScore\<close> reads its counters and writes its total: on null the read
  raises a type error, on a primitive the write does (the code of a class is strict).
\<close>

definition loadScore :: "client \<Rightarrow> error + client" where
  "loadScore s =
     (case localStorage s of
        Missing \<Rightarrow> Inr s
      | EmptyText \<Rightarrow> Inr s
      | Unparseable \<Rightarrow> Inl SyntaxError
      | Parsed PNull \<Rightarrow> Inl TypeError
      | Parsed PPrimitive \<Rightarrow> Inl TypeError
      | Parsed (PObject r) \<Rightarrow> Inr (updateTotalScore (s\<lparr>score := r\<rparr>)))"

text \<open>A sequence of calls of \<open>addKill\<close> and \<open>addDeath\<close>.\<close>

datatype score_call = AddKill | AddDeath

fun score_calls :: "score_call list \<Rightarrow> client \<Rightarrow> client" where
  "score_calls [] s = s"
| "score_calls (AddKill # cs) s = score_calls cs (addKill s)"
| "score_calls (AddDeath # cs) s = score_calls cs (addDeath s)"

subsection \<open>Keyboard\<close>

record key_event =
  key_code :: string
  ctrlKey :: bool
  metaKey :: bool

definition keyMap :: "string \<Rightarrow> string option" where
  "keyMap c =
     (if c = ''ArrowUp'' then Some ''up''
      else if c = ''ArrowDown'' then Some ''down''
      else if c = ''ArrowLeft'' then Some ''left''
      else if c = ''ArrowRight'' then Some ''right''
      else None)"

definition sendMoveCommand :: "string \<Rightarrow> client \<Rightarrow> client" where
  "sendMoveCommand direction s =
     (if \<not> connected s then s
      else s\<lparr>socket_calls := socket_calls s @ [Send (Move direction)]\<rparr>)"

definition sendStopCommand :: "client \<Rightarrow> client" where
  "sendStopCommand s =
     (if \<not> connected s then s
      else s\<lparr>socket_calls := socket_calls s @ [Send Stop]\<rparr>)"

definition handleKeyDown :: "key_event \<Rightarrow> client \<Rightarrow> client" where
  "handleKeyDown ev s =
     (if gameState s \<noteq> Playing then s
      else case keyMap (key_code ev) of
             None \<Rightarrow> s
           | Some direction \<Rightarrow>
               sendMoveCommand direction
                 (s\<lparr>pressedKeys := insert (key_code ev) (pressedKeys s)\<rparr>))"

definition handleKeyUp :: "key_event \<Rightarrow> client \<Rightarrow> client" where
  "handleKeyUp ev s =
     (if gameState s \<noteq> Playing then s
      else case keyMap (key_code ev) of
             None \<Rightarrow> s
           | Some direction \<Rightarrow>
               (let s1 = s\<lparr>pressedKeys := pressedKeys s - {key_code ev}\<rparr>
                in if pressedKeys s1 = {} then sendStopCommand s1 else s1))"

subsection \<open>Combat\<close>

definition distance :: "real \<Rightarrow> real \<Rightarrow> real \<Rightarrow> real \<Rightarrow> real" where
  "distance ax ay x y = sqrt ((ax - x)\<^sup>2 + (ay - y)\<^sup>2)"

text \<open>
  The loop of \<open>findPlayerInRange\<close> over the values of the map, in the order of the
  map, with its two variables.
\<close>

fun findLoop ::
  "string option \<Rightarrow> real \<Rightarrow> real \<Rightarrow> avatar list \<Rightarrow> avatar option \<Rightarrow> real \<Rightarrow> avatar option" where
  "findLoop me x y [] closestPlayer closestDistance = closestPlayer"
| "findLoop me x y (a # rest) closestPlayer closestDistance =
     (if Some (av_id a) = me then findLoop me x y rest closestPlayer closestDistance
      else if distance (av_x a) (av_y a) x y < closestDistance
           then findLoop me x y rest (Some a) (distance (av_x a) (av_y a) x y)
           else findLoop me x y rest closestPlayer closestDistance)"

definition findPlayerInRange :: "real \<Rightarrow> real \<Rightarrow> client \<Rightarrow> avatar option" where
  "findPlayerInRange x y s =
     findLoop (myPlayerId s) x y (map snd (players s)) None (attackRange s)"

definition attackPlayer :: "string \<Rightarrow> client \<Rightarrow> client" where
  "attackPlayer targetId s =
     (if \<not> connected s then s
      else s\<lparr>socket_calls := socket_calls s @ [Send (Attack targetId)],
             attackCooldown := attackCooldownTime s,
             timers := timers s @ [(AttackFallback targetId, 1000)]\<rparr>)"

definition screenToWorld :: "real \<Rightarrow> real \<Rightarrow> client \<Rightarrow> real \<times> real" where
  "screenToWorld screenX screenY s = (screenX + viewportOffsetX s, screenY + viewportOffsetY s)"

definition worldToScreen :: "real \<Rightarrow> real \<Rightarrow> client \<Rightarrow> real \<times> real" where
  "worldToScreen worldX worldY s = (worldX - viewportOffsetX s, worldY - viewportOffsetY s)"

text \<open>A value of JavaScript that is null or the empty string is falsy.\<close>

definition truthy :: "string option \<Rightarrow> bool" where
  "truthy v = (case v of None \<Rightarrow> False | Some t \<Rightarrow> t \<noteq> [])"

text \<open>
  A click at \<open>(clientX, clientY)\<close> while the bounding rectangle of the canvas has its
  corner at \<open>(rect_left, rect_top)\<close>.
\<close>

definition handleCanvasClick :: "real \<Rightarrow> real \<Rightarrow> real \<Rightarrow> real \<Rightarrow> client \<Rightarrow> client" where
  "handleCanvasClick clientX clientY rect_left rect_top s =
     (if \<not> connected s \<or> \<not> truthy (myPlayerId s) \<or> gameState s \<noteq> Playing then s
      else if attackCooldown s > 0 then s
      else (let (wx, wy) = screenToWorld (clientX - rect_left) (clientY - rect_top) s
            in case findPlayerInRange wx wy s of
                 Some target \<Rightarrow> attackPlayer (av_id target) s
               | None \<Rightarrow> s))"

definition update :: "client \<Rightarrow> client" where
  "update s =
     (if attackCooldown s > 0
      then (let c = attackCooldown s - 16
            in s\<lparr>attackCooldown := (if c < 0 then 0 else c)\<rparr>)
      else s)"

definition simulatePlayerDeath :: "string \<Rightarrow> client \<Rightarrow> client" where
  "simulatePlayerDeath targetId s =
     (case map_of (players s) targetId of
        None \<Rightarrow> s
      | Some player \<Rightarrow>
          s\<lparr>players := AList.update targetId (player\<lparr>isDead := True\<rparr>) (players s),
            timers := timers s @ [(SimulatedRespawn (oid player), 3000)]\<rparr>)"

text \<open>The two callbacks given to \<open>setTimeout\<close>.\<close>

definition attackFallback :: "string \<Rightarrow> client \<Rightarrow> client" where
  "attackFallback targetId s =
     (if attackCooldown s > 0 then simulatePlayerDeath targetId (addKill s) else s)"

definition simulatedRespawn :: "nat \<Rightarrow> client \<Rightarrow> client" where
  "simulatedRespawn n s =
     s\<lparr>players := map (\<lambda>(k, a). (k, if oid a = n then a\<lparr>isDead := False\<rparr> else a)) (players s)\<rparr>"

subsection \<open>Session\<close>

definition server_url :: string where
  "server_url = ''wss://codepath-mmorg.onrender.com''"

definition connectToServer :: "client \<Rightarrow> client" where
  "connectToServer s =
     (let s1 = (case websocket s of
                  Some w \<Rightarrow> s\<lparr>socket_calls := socket_calls s @ [Close], websocket := None\<rparr>
                | None \<Rightarrow> s)
      in s1\<lparr>websocket := Some (WebSocket server_url),
             socket_calls := socket_calls s1 @ [Connect (WebSocket server_url)]\<rparr>)"

definition joinGame :: "client \<Rightarrow> client" where
  "joinGame s =
     (if \<not> connected s then s
      else s\<lparr>socket_calls := socket_calls s @ [Send (JoinGame ''Tinotenda'')]\<rparr>)"

definition onopen :: "client \<Rightarrow> client" where
  "onopen s = joinGame (s\<lparr>connected := True\<rparr>)"

definition onclose :: "client \<Rightarrow> client" where
  "onclose s = s\<lparr>connected := False\<rparr>"

definition pauseGame :: "int \<Rightarrow> client \<Rightarrow> client" where
  "pauseGame now s =
     (if gameState s \<noteq> Playing then s
      else sendStopCommand (s\<lparr>gameState := Paused, pauseStartTime := now\<rparr>))"

definition resumeGame :: "int \<Rightarrow> client \<Rightarrow> client" where
  "resumeGame now s =
     (if gameState s \<noteq> Paused then s
      else s\<lparr>gameState := Playing,
             totalPauseTime := totalPauseTime s + (now - pauseStartTime s)\<rparr>)"

definition togglePause :: "int \<Rightarrow> client \<Rightarrow> client" where
  "togglePause now s =
     (if gameState s = Playing then pauseGame now s
      else if gameState s = Paused then resumeGame now s
      else s)"

definition stopGame :: "client \<Rightarrow> client" where
  "stopGame s =
     (let s1 = s\<lparr>gameState := Stopped\<rparr>;
          s2 = (case websocket s1 of
                  Some w \<Rightarrow> s1\<lparr>socket_calls := socket_calls s1 @ [Close]\<rparr>
                | None \<Rightarrow> s1)
      in s2\<lparr>players := filter (\<lambda>(playerId, a). Some playerId = myPlayerId s2) (players s2)\<rparr>)"

definition restartGame :: "client \<Rightarrow> client" where
  "restartGame s =
     connectToServer
       ((saveScore
          (s\<lparr>gameState := Playing, pauseStartTime := 0, totalPauseTime := 0,
             pressedKeys := {}, attackCooldown := 0, score := zero_score\<rparr>))
        \<lparr>players := [], myPlayerId := None, viewportInitialized := False,
         viewportOffsetX := 0, viewportOffsetY := 0\<rparr>)"

definition handleGameControlKeys :: "int \<Rightarrow> key_event \<Rightarrow> client \<Rightarrow> client" where
  "handleGameControlKeys now ev s =
     (if key_code ev = ''Space'' then togglePause now s
      else if key_code ev = ''Escape'' then stopGame s
      else if key_code ev = ''KeyR'' then (if ctrlKey ev \<or> metaKey ev then restartGame s else s)
      else if key_code ev = ''KeyS'' then (if ctrlKey ev \<or> metaKey ev then resetScore s else s)
      else s)"

subsection \<open>Viewport\<close>

definition myAvatar :: "client \<Rightarrow> avatar option" where
  "myAvatar s = (case myPlayerId s of None \<Rightarrow> None | Some p \<Rightarrow> map_of (players s) p)"

definition centerViewportOnMyAvatar :: "client \<Rightarrow> client" where
  "centerViewportOnMyAvatar s =
     (case myAvatar s of
        None \<Rightarrow> s
      | Some a \<Rightarrow>
          if viewportInitialized s then s
          else (if worldWidth s \<le> canvas_width s \<and> worldHeight s \<le> canvas_height s
                then s\<lparr>viewportOffsetX := 0, viewportOffsetY := 0\<rparr>
                else s\<lparr>viewportOffsetX :=
                         max 0 (min (av_x a - canvas_width s / 2) (worldWidth s - canvas_width s)),
                       viewportOffsetY :=
                         max 0 (min (av_y a - canvas_height s / 2) (worldHeight s - canvas_height s))\<rparr>)
               \<lparr>viewportInitialized := True\<rparr>)"

definition updateViewport :: "client \<Rightarrow> client" where
  "updateViewport s =
     (if truthy (myPlayerId s) \<and> viewportInitialized s
      then (case myAvatar s of
              None \<Rightarrow> s
            | Some a \<Rightarrow>
                s\<lparr>viewportOffsetX :=
                    max 0 (min (av_x a - canvas_width s / 2) (worldWidth s - canvas_width s)),
                  viewportOffsetY :=
                    max 0 (min (av_y a - canvas_height s / 2) (worldHeight s - canvas_height s))\<rparr>)
      else s)"

text \<open>The listener of the window's resize event, for the new inner size of the window.\<close>

definition onresize :: "real \<Rightarrow> real \<Rightarrow> client \<Rightarrow> client" where
  "onresize innerWidth innerHeight s =
     updateViewport (s\<lparr>canvas_width := innerWidth, canvas_height := innerHeight\<rparr>)"


subsection \<open>Messages of the server\<close>

datatype in_msg =
    JoinGameResult bool string "(string \<times> avatar_data) list option"
      "(string \<times> player_data) list option"
  | PlayerJoined player_data "avatar_data option"
  | PlayersMoved "(string \<times> player_data) list option"
  | PlayerLeft string
  | AttackResult bool string bool
  | PlayerDied string
  | PlayerRespawned string real real
  | UnknownAction

fun storeAvatars :: "(string \<times> avatar_data) list \<Rightarrow> client \<Rightarrow> client" where
  "storeAvatars [] s = s"
| "storeAvatars ((name, avatarData) # rest) s =
     storeAvatars rest (s\<lparr>avatars := AList.update name avatarData (avatars s)\<rparr>)"

fun createPlayers :: "(string \<times> player_data) list \<Rightarrow> client \<Rightarrow> client" where
  "createPlayers [] s = s"
| "createPlayers ((playerId, playerData) # rest) s =
     createPlayers rest
       (case map_of (players s) playerId of
          Some existingAvatar \<Rightarrow>
            (let a1 = avatar_update playerData existingAvatar;
                 a2 = (case map_of (avatars s) (pd_avatar playerData) of
                         None \<Rightarrow> a1
                       | Some avatarData \<Rightarrow> loadAvatarFrames (ad_frames avatarData) a1)
             in s\<lparr>players := AList.update playerId a2 (players s)\<rparr>)
        | None \<Rightarrow>
            s\<lparr>players := AList.update playerId
                  (new_Avatar (next_oid s) playerData
                     (map_of (avatars s) (pd_avatar playerData)))
                  (players s),
              next_oid := Suc (next_oid s)\<rparr>)"

definition handleJoinGame ::
  "bool \<Rightarrow> string \<Rightarrow> (string \<times> avatar_data) list option \<Rightarrow>
   (string \<times> player_data) list option \<Rightarrow> client \<Rightarrow> client" where
  "handleJoinGame success playerId avs pls s =
     (if success
      then (let s1 = s\<lparr>myPlayerId := Some playerId\<rparr>;
                s2 = (case avs of None \<Rightarrow> s1 | Some l \<Rightarrow> storeAvatars l s1);
                s3 = (case pls of None \<Rightarrow> s2 | Some l \<Rightarrow> createPlayers l s2)
            in centerViewportOnMyAvatar s3)
      else s)"

definition handlePlayerJoined :: "player_data \<Rightarrow> avatar_data option \<Rightarrow> client \<Rightarrow> client" where
  "handlePlayerJoined playerData avatarData s =
     (let s1 = (case avatarData of
                  None \<Rightarrow> s
                | Some d \<Rightarrow> s\<lparr>avatars := AList.update (ad_name d) d (avatars s)\<rparr>)
      in s1\<lparr>players := AList.update (pd_id playerData)
                (new_Avatar (next_oid s1) playerData avatarData) (players s1),
             next_oid := Suc (next_oid s1)\<rparr>)"

fun movePlayers :: "(string \<times> player_data) list \<Rightarrow> client \<Rightarrow> client" where
  "movePlayers [] s = s"
| "movePlayers ((playerId, playerData) # rest) s =
     movePlayers rest
       (case map_of (players s) playerId of
          Some a \<Rightarrow> s\<lparr>players := AList.update playerId (avatar_update playerData a) (players s)\<rparr>
        | None \<Rightarrow> s)"

definition handlePlayersMoved :: "(string \<times> player_data) list option \<Rightarrow> client \<Rightarrow> client" where
  "handlePlayersMoved pls s = (case pls of None \<Rightarrow> s | Some l \<Rightarrow> movePlayers l s)"

definition handlePlayerLeft :: "string \<Rightarrow> client \<Rightarrow> client" where
  "handlePlayerLeft playerId s = s\<lparr>players := AList.delete playerId (players s)\<rparr>"

definition handleAttack :: "bool \<Rightarrow> string \<Rightarrow> bool \<Rightarrow> client \<Rightarrow> client" where
  "handleAttack success targetId kill s =
     (if success
      then (if kill then addKill s else simulatePlayerDeath targetId (addKill s))
      else s)"

definition handlePlayerDied :: "string \<Rightarrow> client \<Rightarrow> client" where
  "handlePlayerDied playerId s =
     (case map_of (players s) playerId of
        None \<Rightarrow> s
      | Some player \<Rightarrow>
          (let s1 = s\<lparr>players := AList.update playerId (player\<lparr>isDead := True\<rparr>) (players s)\<rparr>
           in if Some playerId = myPlayerId s1 then addDeath s1 else s1))"

definition handlePlayerRespawned :: "string \<Rightarrow> real \<Rightarrow> real \<Rightarrow> client \<Rightarrow> client" where
  "handlePlayerRespawned playerId x y s =
     (case map_of (players s) playerId of
        None \<Rightarrow> s
      | Some player \<Rightarrow>
          s\<lparr>players := AList.update playerId
               (player\<lparr>isDead := False, av_x := x, av_y := y\<rparr>) (players s)\<rparr>)"

fun handleMessage :: "in_msg \<Rightarrow> client \<Rightarrow> client" where
  "handleMessage (JoinGameResult success playerId avs pls) s = handleJoinGame success playerId avs pls s"
| "handleMessage (PlayerJoined playerData avatarData) s = handlePlayerJoined playerData avatarData s"
| "handleMessage (PlayersMoved pls) s = handlePlayersMoved pls s"
| "handleMessage (PlayerLeft playerId) s = handlePlayerLeft playerId s"
| "handleMessage (AttackResult success targetId kill) s = handleAttack success targetId kill s"
| "handleMessage (PlayerDied playerId) s = handlePlayerDied playerId s"
| "handleMessage (PlayerRespawned playerId x y) s = handlePlayerRespawned playerId x y s"
| "handleMessage UnknownAction s = s"

subsection \<open>The constructor and the event loop\<close>

text \<open>
  \<open>new GameClient()\<close> in a window of the given inner size, with the given item in the
  local storage: the fields (\<open>blank_client\<close>, with the canvas at the size \<open>init\<close>
  gives it), \<open>loadScore\<close>, then the socket that \<open>init\<close> opens.
\<close>

definition blank_client :: "real \<Rightarrow> real \<Rightarrow> persisted \<Rightarrow> client" where
  "blank_client innerWidth innerHeight item =
     \<lparr>worldWidth = 2048, worldHeight = 2048, myPlayerId = None, players = [],
      avatars = [], websocket = None, connected = False,
      viewportOffsetX = 0, viewportOffsetY = 0, viewportInitialized = False,
      pressedKeys = {}, attackCooldown = 0, attackCooldownTime = 1000,
      attackRange = 50, score = zero_score, gameState = Playing,
      pauseStartTime = 0, totalPauseTime = 0,
      canvas_width = innerWidth, canvas_height = innerHeight,
      localStorage = item, socket_calls = [], timers = [], next_oid = 0\<rparr>"

definition new_GameClient :: "real \<Rightarrow> real \<Rightarrow> persisted \<Rightarrow> error + client" where
  "new_GameClient innerWidth innerHeight item =
     (case loadScore (blank_client innerWidth innerHeight item) of
        Inl e \<Rightarrow> Inl e
      | Inr s \<Rightarrow> Inr (connectToServer s))"

text \<open>
  The callbacks the host runs, one at a time. A key press carries the reading of the
  clock that \<open>Date.now()\<close> gives. \<open>TimerFired i\<close> runs the scheduled timeout at
  position \<open>i\<close> of the pending ones and drops it.
\<close>

datatype event =
    KeyDown int key_event
  | KeyUp key_event
  | Click real real real real
  | Frame
  | Resize real real
  | SocketOpen
  | SocketClosed
  | Message in_msg
  | TimerFired nat

fun fire :: "timer \<Rightarrow> client \<Rightarrow> client" where
  "fire (AttackFallback targetId) s = attackFallback targetId s"
| "fire (SimulatedRespawn n) s = simulatedRespawn n s"

fun step :: "event \<Rightarrow> client \<Rightarrow> client" where
  "step (KeyDown now ev) s = handleGameControlKeys now ev (handleKeyDown ev s)"
| "step (KeyUp ev) s = handleKeyUp ev s"
| "step (Click clientX clientY rect_left rect_top) s =
     handleCanvasClick clientX clientY rect_left rect_top s"
| "step Frame s = update s"
| "step (Resize innerWidth innerHeight) s = onresize innerWidth innerHeight s"
| "step SocketOpen s = onopen s"
| "step SocketClosed s = onclose s"
| "step (Message m) s = handleMessage m s"
| "step (TimerFired i) s =
     (if i < length (timers s)
      then fire (fst (timers s ! i)) (s\<lparr>timers := take i (timers s) @ drop (Suc i) (timers s)\<rparr>)
      else s)"

fun run :: "event list \<Rightarrow> client \<Rightarrow> client" where
  "run [] s = s"
| "run (e # es) s = run es (step e s)"

subsection \<open>A session\<close>

text \<open>
  A client in a window of 800 by 600 with nothing stored, whose socket has opened and
  which has joined as player 1 at (0, 0), with player 2 at (40, 0). \<open>avatar1\<close>
  and \<open>avatar2\<close> are the two avatars the client then holds.
\<close>

definition started :: client where
  "started = connectToServer (blank_client 800 600 Missing)"

definition player1 :: player_data where
  "player1 = \<lparr>pd_id = ''1'', pd_username = ''Tinotenda'', pd_x = 0, pd_y = 0,
               pd_facing = ''south'', pd_isMoving = False, pd_animationFrame = None,
               pd_avatar = ''hero''\<rparr>"

definition player2 :: player_data where
  "player2 = \<lparr>pd_id = ''2'', pd_username = ''Rival'', pd_x = 40, pd_y = 0,
               pd_facing = ''west'', pd_isMoving = False, pd_animationFrame = None,
               pd_avatar = ''hero''\<rparr>"

definition avatar1 :: avatar where
  "avatar1 = \<lparr>oid = 0, av_id = ''1'', username = ''Tinotenda'', av_x = 0,
               av_y = 0, facing = ''south'', isMoving = False,
               animationFrame = 0, avatarName = ''hero'', isDead = False,
               frames = \<lparr>north = [], south = [], east = []\<rparr>,
               avatarSize = 32\<rparr>"

definition avatar2 :: avatar where
  "avatar2 = \<lparr>oid = 1, av_id = ''2'', username = ''Rival'', av_x = 40,
               av_y = 0, facing = ''west'', isMoving = False,
               animationFrame = 0, avatarName = ''hero'', isDead = False,
               frames = \<lparr>north = [], south = [], east = []\<rparr>,
               avatarSize = 32\<rparr>"

definition joined :: client where
  "joined =
     run [SocketOpen,
          Message (JoinGameResult True ''1'' None (Some [(''1'', player1), (''2'', player2)]))]
       started"

definition arrowUp :: key_event where
  "arrowUp = \<lparr>key_code = ''ArrowUp'', ctrlKey = False, metaKey = False\<rparr>"

text \<open>
  The join at (1000, 1000): \<open>entering\<close> is the client inside \<open>handleJoinGame\<close> when
  the avatars are made and the viewport is not centred yet, \<open>entered\<close> the client
  after the message.
\<close>

definition entering :: client where
  "entering =
     createPlayers [(''1'', player1\<lparr>pd_x := 1000, pd_y := 1000\<rparr>)]
       ((onopen started)\<lparr>myPlayerId := Some ''1''\<rparr>)"

definition entered :: client where
  "entered =
     run [SocketOpen,
          Message (JoinGameResult True ''1'' None
                     (Some [(''1'', player1\<lparr>pd_x := 1000, pd_y := 1000\<rparr>)]))]
       started"

text \<open>An avatar that walks west, with three frames for east.\<close>

definition walker :: avatar where
  "walker = avatar2\<lparr>isMoving := True, animationFrame := 4,
      frames := \<lparr>north = [], south = [],
                 east = [Image ''e0'', Image ''e1'', Image ''e2'']\<rparr>\<rparr>"




text \<open>
  A client that starts with a stored record of \<open>2^53\<close> kills, and one that starts
  with a stored record of 3 kills and 1 death whose total is wrong.
\<close>

definition veteran :: client where
  "veteran =
     connectToServer
       ((blank_client 800 600 (Parsed (PObject (plain_score 9007199254740992 0 9007199254740992))))
        \<lparr>score := plain_score 9007199254740992 0 9007199254740992\<rparr>)"


text \<open>The session after a click on player 2.\<close>

definition attacking :: client where
  "attacking = step (Click 40 0 0 0) joined"

text \<open>
  An attack that the server answers: the click on player 2, the attack result of the
  server (a kill), sixty frames, and then the timeout of the attack.
\<close>

definition answered_attack :: "event list" where
  "answered_attack =
     [Click 40 0 0 0, Message (AttackResult True ''2'' True)] @ replicate 60 Frame @ [TimerFired 0]"

subsection \<open>What the claims speak of\<close>

text \<open>
  The direction keys, and the messages that a sequence of their events is to send from
  a set of pressed keys: a move for every key that goes down, a stop for every key that
  goes up and leaves no key pressed.
\<close>

fun direction_key :: "event \<Rightarrow> bool" where
  "direction_key (KeyDown now ev) = (keyMap (key_code ev) \<noteq> None)"
| "direction_key (KeyUp ev) = (keyMap (key_code ev) \<noteq> None)"
| "direction_key e = False"

fun key_messages :: "event list \<Rightarrow> string set \<Rightarrow> out_msg list" where
  "key_messages [] pressed = []"
| "key_messages (KeyDown now ev # es) pressed =
     (case keyMap (key_code ev) of
        Some d \<Rightarrow> Move d # key_messages es (insert (key_code ev) pressed)
      | None \<Rightarrow> key_messages es pressed)"
| "key_messages (KeyUp ev # es) pressed =
     (if pressed - {key_code ev} = {} then Stop # key_messages es (pressed - {key_code ev})
      else key_messages es (pressed - {key_code ev}))"
| "key_messages (e # es) pressed = key_messages es pressed"



text \<open>Two states with the same cooldown, the same cooldown time and the same attack range.\<close>

definition same_cooldown :: "client \<Rightarrow> client \<Rightarrow> bool" where
  "same_cooldown s t =
     (attackCooldown t = attackCooldown s \<and> attackCooldownTime t = attackCooldownTime s
      \<and> attackRange t = attackRange s)"

section \<open>The session, evaluated\<close>

lemma started_eq:
  "started =
     \<lparr>worldWidth = 2048, worldHeight = 2048, myPlayerId = None, players = [],
      avatars = [], websocket = Some (WebSocket server_url), connected = False,
      viewportOffsetX = 0, viewportOffsetY = 0, viewportInitialized = False,
      pressedKeys = {}, attackCooldown = 0, attackCooldownTime = 1000,
      attackRange = 50, score = zero_score, gameState = Playing,
      pauseStartTime = 0, totalPauseTime = 0,
      canvas_width = 800, canvas_height = 600,
      localStorage = Missing, socket_calls = [Connect (WebSocket server_url)],
      timers = [], next_oid = 0\<rparr>"
  by (simp add: started_def connectToServer_def blank_client_def)

lemma joined_eq:
  "joined =
     \<lparr>worldWidth = 2048, worldHeight = 2048, myPlayerId = Some ''1'',
      players = [(''1'', avatar1), (''2'', avatar2)],
      avatars = [], websocket = Some (WebSocket server_url), connected = True,
      viewportOffsetX = 0, viewportOffsetY = 0, viewportInitialized = True,
      pressedKeys = {}, attackCooldown = 0, attackCooldownTime = 1000,
      attackRange = 50, score = zero_score, gameState = Playing,
      pauseStartTime = 0, totalPauseTime = 0,
      canvas_width = 800, canvas_height = 600,
      localStorage = Missing,
      socket_calls = [Connect (WebSocket server_url), Send (JoinGame ''Tinotenda'')],
      timers = [], next_oid = 2\<rparr>"
  by (simp add: joined_def started_eq onopen_def joinGame_def handleJoinGame_def
      centerViewportOnMyAvatar_def myAvatar_def new_Avatar_def player1_def player2_def
      avatar1_def avatar2_def numeral_2_eq_2)

section \<open>Numbers\<close>

lemma round_half_even_int [simp]: "round_half_even (of_int m) = m"
  by (simp add: round_half_even_def)

lemma round_half_even_numeral [simp]: "round_half_even (numeral w) = numeral w"
  using round_half_even_int [of "numeral w"] by simp

lemma exact_below_2_53:
  assumes "1 \<le> n" and "n \<le> 2 ^ 53"
  shows "of_int (round_half_even (of_int n / 2 powi (max (bitlen n - 1) (- 1022) - 52)))
        * 2 powi (max (bitlen n - 1) (- 1022) - 52) = (of_int n :: rat)"
proof (cases "n = 2 ^ 53")
  case True
  have "bitlen (9007199254740992::int) = 54" by code_simp
  then have b: "bitlen n = 54" unfolding True by simp
  show ?thesis
    unfolding b unfolding True by (simp add: power_int_def)
next
  case False
  then have "n < 2 ^ 53" using assms(2) by simp
  then have le: "bitlen n \<le> 53" by (simp add: bitlen_le_iff_power)
  have ge: "1 \<le> bitlen n"
    using assms(1) bitlen_eq_zero_iff [of n] bitlen_nonneg [of n] by (cases "bitlen n = 0") auto
  define m where "m = nat (53 - bitlen n)"
  have m: "max (bitlen n - 1) (- 1022) - 52 = - int m"
    using le ge by (simp add: m_def max_def)
  have p: "(2::rat) powi (- int m) = inverse (2 ^ m)"
    by (simp add: power_int_def power_inverse power_one_over inverse_eq_divide)
  have "(of_int n :: rat) / inverse (2 ^ m) = of_int (n * 2 ^ m)"
    by (simp add: divide_inverse)
  then have "round_half_even (of_int n / inverse (2 ^ m)) = n * 2 ^ m"
    by (simp only: round_half_even_int)
  then show ?thesis
    unfolding m p by simp
qed

text \<open>An integer of magnitude up to \<open>2^53\<close> is a double.\<close>

lemma to_double_int:
  assumes "\<bar>k\<bar> \<le> 2 ^ 53"
  shows "to_double (of_int k) = Fin (of_int k)"
proof (cases "k = 0")
  case True
  then show ?thesis by (simp add: to_double_def)
next
  case False
  define n where "n = \<bar>k\<bar>"
  have n: "1 \<le> n" "n \<le> 2 ^ 53" using False assms by (simp_all add: n_def)
  have a: "\<bar>of_int k :: rat\<bar> = of_int n" by (simp add: n_def)
  have bin: "binade (of_int n) = bitlen n - 1"
    using n by (simp add: binade_def)
  have "n < 2 ^ 1024" using n(2) by (rule le_less_trans) simp
  then have "(of_int n :: rat) < of_int (2 ^ 1024)" by (simp only: of_int_less_iff)
  then have big: "\<not> 2 ^ 1024 \<le> (of_int n :: rat)" by simp
  have nz: "(of_int k :: rat) \<noteq> 0" using False by simp
  have s: "sgn (of_int k :: rat) * of_int n = of_int k"
    unfolding a [symmetric] by (rule sgn_mult_abs)
  show ?thesis
    unfolding to_double_def Let_def a bin exact_below_2_53 [OF n]
    using nz big s by (simp only: if_False)
qed

lemma num_add_int:
  "\<bar>a + b\<bar> \<le> 2 ^ 53 \<Longrightarrow> num_add (Fin (of_int a)) (Fin (of_int b)) = Fin (of_int (a + b))"
  using to_double_int [of "a + b"] by simp

lemma num_sub_int:
  "\<bar>a - b\<bar> \<le> 2 ^ 53 \<Longrightarrow> num_sub (Fin (of_int a)) (Fin (of_int b)) = Fin (of_int (a - b))"
  using to_double_int [of "a - b"] by (simp add: num_sub_def)

text \<open>The double nearest to \<open>2^53 + 1\<close> is \<open>2^53\<close>.\<close>

lemma absorbed: "num_add (Fin 9007199254740992) (Fin 1) = Fin 9007199254740992"
proof -
  have b: "bitlen (9007199254740993::int) = 54" by code_simp
  have f: "\<lfloor>(9007199254740993::rat) / 2\<rfloor> = 4503599627370496"
    by (rule floor_unique) simp_all
  have r: "round_half_even (9007199254740993 / 2) = 4503599627370496"
    unfolding round_half_even_def Let_def f by simp
  have bin: "binade 9007199254740993 = 53"
    using b by (simp add: binade_def)
  show ?thesis
    by (simp add: to_double_def bin r Let_def power_int_def)
qed

section \<open>Score ledger\<close>

lemma score_eqI:
  "kills r = a \<Longrightarrow> deaths r = b \<Longrightarrow> total r = c \<Longrightarrow> isArray r = e \<Longrightarrow>
   r = \<lparr>kills = a, deaths = b, total = c, isArray = e\<rparr>"
  by (cases r) simp

lemma stringified_plain [simp]: "stringified (plain_score k d t) = plain_score k d t"
  by (simp add: stringified_def plain_score_def)

lemma addKill_total:
  "total (score (addKill s)) =
     Number (num_sub (ToNumber (kills (score (addKill s)))) (ToNumber (deaths (score (addKill s)))))"
  "localStorage (addKill s) = Parsed (PObject (stringified (score (addKill s))))"
  by (simp_all add: addKill_def saveScore_def updateTotalScore_def)

lemma addDeath_total:
  "total (score (addDeath s)) =
     Number (num_sub (ToNumber (kills (score (addDeath s)))) (ToNumber (deaths (score (addDeath s)))))"
  "localStorage (addDeath s) = Parsed (PObject (stringified (score (addDeath s))))"
  by (simp_all add: addDeath_def saveScore_def updateTotalScore_def)

lemma addKill_plain:
  assumes "kills (score s) = Number (Fin (of_int k))" and "deaths (score s) = Number (Fin (of_int d))"
    and "\<not> isArray (score s)" and "0 \<le> k" and "k < 2 ^ 53" and "0 \<le> d" and "d \<le> 2 ^ 53"
  shows "addKill s =
     s\<lparr>score := plain_score (k + 1) d (k + 1 - d),
       localStorage := Parsed (PObject (plain_score (k + 1) d (k + 1 - d)))\<rparr>"
proof -
  have 1: "num_add (Fin (of_int k)) (Fin 1) = Fin (of_int (k + 1))"
    using num_add_int [of k 1] assms by simp
  have 2: "num_sub (Fin (of_int (k + 1))) (Fin (of_int d)) = Fin (of_int (k + 1 - d))"
    using assms by (intro num_sub_int) simp
  let ?r = "(score s)\<lparr>kills := Number (Fin (of_int (k + 1))),
      total := Number (Fin (of_int (k + 1 - d)))\<rparr>"
  have r: "?r = plain_score (k + 1) d (k + 1 - d)"
    unfolding plain_score_def using assms(2,3) by (intro score_eqI) simp_all
  have "addKill s = s\<lparr>score := ?r, localStorage := Parsed (PObject (stringified ?r))\<rparr>"
    using assms(1,2) 1 2 by (simp add: addKill_def saveScore_def updateTotalScore_def)
  then show ?thesis unfolding r by simp
qed

lemma addDeath_plain:
  assumes "kills (score s) = Number (Fin (of_int k))" and "deaths (score s) = Number (Fin (of_int d))"
    and "\<not> isArray (score s)" and "0 \<le> k" and "k \<le> 2 ^ 53" and "0 \<le> d" and "d < 2 ^ 53"
  shows "addDeath s =
     s\<lparr>score := plain_score k (d + 1) (k - (d + 1)),
       localStorage := Parsed (PObject (plain_score k (d + 1) (k - (d + 1))))\<rparr>"
proof -
  have 1: "num_add (Fin (of_int d)) (Fin 1) = Fin (of_int (d + 1))"
    using num_add_int [of d 1] assms by simp
  have 2: "num_sub (Fin (of_int k)) (Fin (of_int (d + 1))) = Fin (of_int (k - (d + 1)))"
    using assms by (intro num_sub_int) simp
  let ?r = "(score s)\<lparr>deaths := Number (Fin (of_int (d + 1))),
      total := Number (Fin (of_int (k - (d + 1))))\<rparr>"
  have r: "?r = plain_score k (d + 1) (k - (d + 1))"
    unfolding plain_score_def using assms(1,3) by (intro score_eqI) simp_all
  have "addDeath s = s\<lparr>score := ?r, localStorage := Parsed (PObject (stringified ?r))\<rparr>"
    using assms(1,2) 1 2 by (simp add: addDeath_def saveScore_def updateTotalScore_def)
  then show ?thesis unfolding r by simp
qed

lemma plain_score_fields [simp]:
  "kills (plain_score k d t) = Number (Fin (of_int k))"
  "deaths (plain_score k d t) = Number (Fin (of_int d))"
  "total (plain_score k d t) = Number (Fin (of_int t))"
  "isArray (plain_score k d t) = False"
  by (simp_all add: plain_score_def)

lemma score_calls_plain:
  assumes "kills (score s) = Number (Fin (of_int k))" and "deaths (score s) = Number (Fin (of_int d))"
    and "\<not> isArray (score s)" and "0 \<le> k" and "0 \<le> d" and "cs \<noteq> []"
    and "k + int (length cs) \<le> 2 ^ 53" and "d + int (length cs) \<le> 2 ^ 53"
  shows "score (score_calls cs s) =
     plain_score (k + int (count_list cs AddKill)) (d + int (count_list cs AddDeath))
       (k + int (count_list cs AddKill) - (d + int (count_list cs AddDeath)))"
  using assms
proof (induction cs arbitrary: s k d)
  case Nil
  then show ?case by simp
next
  case (Cons c cs)
  show ?case
  proof (cases c)
    case AddKill
    have e: "addKill s =
        s\<lparr>score := plain_score (k + 1) d (k + 1 - d),
          localStorage := Parsed (PObject (plain_score (k + 1) d (k + 1 - d)))\<rparr>"
      using Cons.prems by (intro addKill_plain) simp_all
    show ?thesis
    proof (cases "cs = []")
      case True
      then show ?thesis using AddKill e by simp
    next
      case False
      have "score (score_calls cs (addKill s)) =
          plain_score (k + 1 + int (count_list cs AddKill)) (d + int (count_list cs AddDeath))
            (k + 1 + int (count_list cs AddKill) - (d + int (count_list cs AddDeath)))"
        using Cons.prems False by (intro Cons.IH) (simp_all add: e)
      then show ?thesis using AddKill by (simp add: add.commute add.left_commute)
    qed
  next
    case AddDeath
    have e: "addDeath s =
        s\<lparr>score := plain_score k (d + 1) (k - (d + 1)),
          localStorage := Parsed (PObject (plain_score k (d + 1) (k - (d + 1))))\<rparr>"
      using Cons.prems by (intro addDeath_plain) simp_all
    show ?thesis
    proof (cases "cs = []")
      case True
      then show ?thesis using AddDeath e by simp
    next
      case False
      have "score (score_calls cs (addDeath s)) =
          plain_score (k + int (count_list cs AddKill)) (d + 1 + int (count_list cs AddDeath))
            (k + int (count_list cs AddKill) - (d + 1 + int (count_list cs AddDeath)))"
        using Cons.prems False by (intro Cons.IH) (simp_all add: e)
      then show ?thesis using AddDeath by (simp add: add.commute add.left_commute)
    qed
  qed
qed

lemma veteran_start:
  "new_GameClient 800 600 (Parsed (PObject (plain_score 9007199254740992 0 9007199254740992)))
     = Inr veteran"
proof -
  have "num_sub (Fin (of_int 9007199254740992)) (Fin (of_int 0)) = Fin (of_int (9007199254740992 - 0))"
    by (intro num_sub_int) simp
  then have "num_sub (Fin 9007199254740992) (Fin 0) = Fin 9007199254740992" by simp
  then show ?thesis
    by (simp add: new_GameClient_def loadScore_def veteran_def blank_client_def
        updateTotalScore_def plain_score_def)
qed

text \<open>
  C6, as the claim states it, fails: a client that starts with a stored record of
  \<open>2^53\<close> kills has that many kills, and still has after \<open>addKill\<close>: the
  double nearest to \<open>2^53 + 1\<close> is \<open>2^53\<close>.
\<close>

theorem addKill_absorbed_at_2_53:
  "new_GameClient 800 600 (Parsed (PObject (plain_score 9007199254740992 0 9007199254740992)))
     = Inr veteran
   \<and> kills (score veteran) = Number (Fin 9007199254740992)
   \<and> kills (score (addKill veteran)) = Number (Fin 9007199254740992)"
proof -
  have k: "kills (score veteran) = Number (Fin 9007199254740992)"
    by (simp add: veteran_def connectToServer_def blank_client_def)
  have "kills (score (addKill veteran)) =
      Number (num_add (ToNumber (kills (score veteran))) (Fin 1))"
    by (simp add: addKill_def saveScore_def updateTotalScore_def)
  then have "kills (score (addKill veteran)) = Number (Fin 9007199254740992)"
    unfolding k by (simp only: ToNumber.simps absorbed)
  then show ?thesis using veteran_start k by simp
qed

text \<open>
  C6, amended. On a plain score object whose kills and deaths are integers from 0 to
  \<open>2^53 - 1\<close>, \<open>addKill\<close> and \<open>addDeath\<close> add one to their counter, leave the
  other counter, set \<open>total\<close> to \<open>kills - deaths\<close> and store the record they leave;
  so does a sequence of \<open>n\<close> such calls, not empty, from counters of at most
  \<open>2^53 - n\<close>. From every score, the total that a call leaves is the difference of
  its counters in the arithmetic of doubles, and what it stores is the text of the
  score it leaves. \<open>resetScore\<close> leaves and stores the record of zeros.
\<close>

theorem score_ledger:
  "(kills (score s) = Number (Fin (of_int k)) \<and> deaths (score s) = Number (Fin (of_int d))
      \<and> \<not> isArray (score s) \<and> 0 \<le> k \<and> 0 \<le> d \<longrightarrow>
      (k < 2 ^ 53 \<and> d \<le> 2 ^ 53 \<longrightarrow>
         score (addKill s) = plain_score (k + 1) d (k + 1 - d)
         \<and> localStorage (addKill s) = Parsed (PObject (score (addKill s))))
      \<and> (k \<le> 2 ^ 53 \<and> d < 2 ^ 53 \<longrightarrow>
         score (addDeath s) = plain_score k (d + 1) (k - (d + 1))
         \<and> localStorage (addDeath s) = Parsed (PObject (score (addDeath s))))
      \<and> (cs \<noteq> [] \<and> k + int (length cs) \<le> 2 ^ 53 \<and> d + int (length cs) \<le> 2 ^ 53 \<longrightarrow>
         score (score_calls cs s) =
           plain_score (k + int (count_list cs AddKill)) (d + int (count_list cs AddDeath))
             (k + int (count_list cs AddKill) - (d + int (count_list cs AddDeath)))))
   \<and> total (score (addKill s)) =
       Number (num_sub (ToNumber (kills (score (addKill s)))) (ToNumber (deaths (score (addKill s)))))
   \<and> localStorage (addKill s) = Parsed (PObject (stringified (score (addKill s))))
   \<and> total (score (addDeath s)) =
       Number (num_sub (ToNumber (kills (score (addDeath s)))) (ToNumber (deaths (score (addDeath s)))))
   \<and> localStorage (addDeath s) = Parsed (PObject (stringified (score (addDeath s))))
   \<and> score (resetScore s) = plain_score 0 0 0
   \<and> localStorage (resetScore s) = Parsed (PObject (plain_score 0 0 0))"
proof -
  have 1: "score (addKill s) = plain_score (k + 1) d (k + 1 - d)
         \<and> localStorage (addKill s) = Parsed (PObject (score (addKill s)))"
    if "kills (score s) = Number (Fin (of_int k))" "deaths (score s) = Number (Fin (of_int d))"
      "\<not> isArray (score s)" "0 \<le> k" "0 \<le> d" "k < 2 ^ 53" "d \<le> 2 ^ 53"
    using addKill_plain [of s k d] that by simp
  have 2: "score (addDeath s) = plain_score k (d + 1) (k - (d + 1))
         \<and> localStorage (addDeath s) = Parsed (PObject (score (addDeath s)))"
    if "kills (score s) = Number (Fin (of_int k))" "deaths (score s) = Number (Fin (of_int d))"
      "\<not> isArray (score s)" "0 \<le> k" "0 \<le> d" "k \<le> 2 ^ 53" "d < 2 ^ 53"
    using addDeath_plain [of s k d] that by simp
  have 3: "score (score_calls cs s) =
           plain_score (k + int (count_list cs AddKill)) (d + int (count_list cs AddDeath))
             (k + int (count_list cs AddKill) - (d + int (count_list cs AddDeath)))"
    if "kills (score s) = Number (Fin (of_int k))" "deaths (score s) = Number (Fin (of_int d))"
      "\<not> isArray (score s)" "0 \<le> k" "0 \<le> d" "cs \<noteq> []"
      "k + int (length cs) \<le> 2 ^ 53" "d + int (length cs) \<le> 2 ^ 53"
    using that by (rule score_calls_plain)
  have 4: "score (resetScore s) = plain_score 0 0 0"
    "localStorage (resetScore s) = Parsed (PObject (plain_score 0 0 0))"
    by (simp_all add: resetScore_def saveScore_def zero_score_def)
  show ?thesis
    using 1 2 3 4 addKill_total [of s] addDeath_total [of s] by blast
qed

theorem score_ledger_witness:
  "kills (score started) = Number (Fin (of_int 0)) \<and> deaths (score started) = Number (Fin (of_int 0))
   \<and> \<not> isArray (score started)
   \<and> score (addKill started) = plain_score 1 0 1
   \<and> score (addDeath started) = plain_score 0 1 (- 1)
   \<and> score (score_calls [AddKill, AddDeath] started) = plain_score 1 1 0"
proof -
  have s: "kills (score started) = Number (Fin (of_int 0))"
    "deaths (score started) = Number (Fin (of_int 0))" "\<not> isArray (score started)"
    by (simp_all add: started_def connectToServer_def blank_client_def zero_score_def)
  note t = score_ledger [of started 0 0 "[AddKill, AddDeath]", THEN conjunct1]
  have "score (addKill started) = plain_score (0 + 1) 0 (0 + 1 - 0)"
    "score (addDeath started) = plain_score 0 (0 + 1) (0 - (0 + 1))"
    "score (score_calls [AddKill, AddDeath] started) =
       plain_score (0 + int (count_list [AddKill, AddDeath] AddKill))
         (0 + int (count_list [AddKill, AddDeath] AddDeath))
         (0 + int (count_list [AddKill, AddDeath] AddKill)
            - (0 + int (count_list [AddKill, AddDeath] AddDeath)))"
    using t s by simp_all
  then show ?thesis using s by simp
qed

section \<open>Loading the score\<close>





section \<open>Restart\<close>

text \<open>
  C2, as the claim states it, fails: in the session that has joined as player 1, the
  local avatar is in the map before the restart and the map is empty after it, and the
  client no longer has an id.
\<close>

theorem restartGame_clears_local_avatar:
  "myPlayerId joined = Some ''1'' \<and> map_of (players joined) ''1'' = Some avatar1
   \<and> players (restartGame joined) = [] \<and> myPlayerId (restartGame joined) = None"
  by (simp add: joined_eq restartGame_def saveScore_def connectToServer_def)

text \<open>
  C2, amended. The restart command (R with Ctrl or Meta), in any state, runs
  \<open>restartGame\<close>, which leaves the session playing, closes the socket it has and opens
  a new one, sets the cooldown to 0, sets and stores the score of zeros, clears the
  guard and the offset of the viewport and the pressed keys, and removes every avatar,
  the local one too, together with the id of the local player.
\<close>

theorem restartGame_effect:
  "step (KeyDown now \<lparr>key_code = ''KeyR'', ctrlKey = True, metaKey = m\<rparr>) s = restartGame s
   \<and> step (KeyDown now \<lparr>key_code = ''KeyR'', ctrlKey = c, metaKey = True\<rparr>) s = restartGame s
   \<and> gameState (restartGame s) = Playing
   \<and> websocket (restartGame s) = Some (WebSocket server_url)
   \<and> socket_calls (restartGame s) =
       socket_calls s @ (case websocket s of None \<Rightarrow> [] | Some w \<Rightarrow> [Close])
         @ [Connect (WebSocket server_url)]
   \<and> attackCooldown (restartGame s) = 0
   \<and> score (restartGame s) = plain_score 0 0 0
   \<and> localStorage (restartGame s) = Parsed (PObject (plain_score 0 0 0))
   \<and> viewportInitialized (restartGame s) = False
   \<and> viewportOffsetX (restartGame s) = 0 \<and> viewportOffsetY (restartGame s) = 0
   \<and> pressedKeys (restartGame s) = {}
   \<and> players (restartGame s) = []
   \<and> myPlayerId (restartGame s) = None"
proof -
  have "step (KeyDown now \<lparr>key_code = ''KeyR'', ctrlKey = True, metaKey = m\<rparr>) s = restartGame s"
    "step (KeyDown now \<lparr>key_code = ''KeyR'', ctrlKey = c, metaKey = True\<rparr>) s = restartGame s"
    by (simp_all add: handleKeyDown_def keyMap_def handleGameControlKeys_def)
  then show ?thesis
    by (simp add: restartGame_def saveScore_def connectToServer_def zero_score_def
        split: option.split)
qed

section \<open>Direction keys\<close>

lemma keyMap_not_control:
  "keyMap (key_code ev) = Some d \<Longrightarrow> handleGameControlKeys now ev s = s"
  by (auto simp: keyMap_def handleGameControlKeys_def split: if_splits)

lemma key_step:
  assumes "gameState s = Playing" and "direction_key e"
  shows "gameState (step e s) = Playing \<and> connected (step e s) = connected s"
  using assms
  by (cases e) (auto simp: keyMap_not_control handleKeyDown_def handleKeyUp_def
      sendMoveCommand_def sendStopCommand_def Let_def split: if_splits)

lemma key_run_connected:
  assumes "gameState s = Playing" and "connected s" and "\<forall>e \<in> set es. direction_key e"
  shows "socket_calls (run es s) = socket_calls s @ map Send (key_messages es (pressedKeys s))"
  using assms
proof (induction es arbitrary: s)
  case Nil
  then show ?case by simp
next
  case (Cons e es)
  have st: "gameState (step e s) = Playing" "connected (step e s)"
    using key_step [of s e] Cons.prems by simp_all
  have ih: "socket_calls (run es (step e s)) =
      socket_calls (step e s) @ map Send (key_messages es (pressedKeys (step e s)))"
    using Cons.IH [OF st] Cons.prems by simp
  show ?case
  proof (cases e)
    case (KeyDown now ev)
    then obtain d where d: "keyMap (key_code ev) = Some d"
      using Cons.prems by auto
    show ?thesis
      using ih Cons.prems d KeyDown
      by (simp add: keyMap_not_control handleKeyDown_def sendMoveCommand_def)
  next
    case (KeyUp ev)
    then obtain d where d: "keyMap (key_code ev) = Some d"
      using Cons.prems by auto
    show ?thesis
      using ih Cons.prems d KeyUp
      by (simp add: handleKeyUp_def sendStopCommand_def Let_def)
  qed (use Cons.prems in simp_all)
qed

lemma key_run_disconnected:
  assumes "gameState s = Playing" and "\<not> connected s" and "\<forall>e \<in> set es. direction_key e"
  shows "socket_calls (run es s) = socket_calls s"
  using assms
proof (induction es arbitrary: s)
  case Nil
  then show ?case by simp
next
  case (Cons e es)
  have st: "gameState (step e s) = Playing" "\<not> connected (step e s)"
    using key_step [of s e] Cons.prems by simp_all
  have ih: "socket_calls (run es (step e s)) = socket_calls (step e s)"
    using Cons.IH [OF st] Cons.prems by simp
  have "socket_calls (step e s) = socket_calls s"
    using Cons.prems
    by (cases e) (auto simp: keyMap_not_control handleKeyDown_def handleKeyUp_def
      sendMoveCommand_def sendStopCommand_def Let_def)
  then show ?case using ih by simp
qed

text \<open>
  C7, as the claim states it, fails: the client that has started and whose socket has
  not opened yet is playing with no key pressed; the up arrow goes down and up, and no
  call is made on the socket: no move and no stop is sent.
\<close>

theorem key_release_without_connection_sends_nothing:
  "gameState started = Playing \<and> pressedKeys started = {}
   \<and> keyMap (key_code arrowUp) = Some ''up''
   \<and> socket_calls (run [KeyDown 0 arrowUp, KeyUp arrowUp] started) = socket_calls started"
  by (simp add: started_eq arrowUp_def keyMap_def handleKeyDown_def handleKeyUp_def
      sendMoveCommand_def sendStopCommand_def handleGameControlKeys_def)

text \<open>
  C7, amended. While the game is playing, a key-down of a direction key adds the key to
  the pressed set and a key-up removes it. While the client is also connected, the
  key-down sends one move, and the key-up sends a stop exactly when the pressed set is
  empty after the removal, so that a sequence of such events sends the messages of
  \<open>key_messages\<close>, and a key that is pressed and released with no key pressed before
  sends one move and one stop. While the client is not connected, nothing is sent.
\<close>

theorem key_events_while_playing:
  "gameState s = Playing \<longrightarrow>
     (keyMap (key_code ev) = Some d \<longrightarrow>
        pressedKeys (step (KeyDown now ev) s) = insert (key_code ev) (pressedKeys s)
        \<and> pressedKeys (step (KeyUp ev) s) = pressedKeys s - {key_code ev}
        \<and> socket_calls (step (KeyDown now ev) s) =
            socket_calls s @ (if connected s then [Send (Move d)] else [])
        \<and> socket_calls (step (KeyUp ev) s) =
            socket_calls s @
              (if connected s \<and> pressedKeys s - {key_code ev} = {} then [Send Stop] else [])
        \<and> (pressedKeys s = {} \<longrightarrow>
            socket_calls (run [KeyDown now ev, KeyUp ev] s) =
              socket_calls s @ (if connected s then [Send (Move d), Send Stop] else [])))
     \<and> ((\<forall>e \<in> set es. direction_key e) \<longrightarrow>
        socket_calls (run es s) =
          socket_calls s @
            (if connected s then map Send (key_messages es (pressedKeys s)) else []))"
proof (intro impI conjI)
  assume p: "gameState s = Playing"
  {
    assume k: "keyMap (key_code ev) = Some d"
    show "pressedKeys (step (KeyDown now ev) s) = insert (key_code ev) (pressedKeys s)"
      using p k by (simp add: keyMap_not_control handleKeyDown_def sendMoveCommand_def)
    show "pressedKeys (step (KeyUp ev) s) = pressedKeys s - {key_code ev}"
      using p k by (simp add: handleKeyUp_def sendStopCommand_def Let_def)
    show "socket_calls (step (KeyDown now ev) s) =
            socket_calls s @ (if connected s then [Send (Move d)] else [])"
      using p k by (simp add: keyMap_not_control handleKeyDown_def sendMoveCommand_def)
    show "socket_calls (step (KeyUp ev) s) =
            socket_calls s @
              (if connected s \<and> pressedKeys s - {key_code ev} = {} then [Send Stop] else [])"
      using p k by (simp add: handleKeyUp_def sendStopCommand_def Let_def)
    show "socket_calls (run [KeyDown now ev, KeyUp ev] s) =
              socket_calls s @ (if connected s then [Send (Move d), Send Stop] else [])"
      if "pressedKeys s = {}"
      using p k that
      by (simp add: keyMap_not_control handleKeyDown_def handleKeyUp_def
          sendMoveCommand_def sendStopCommand_def Let_def)
  }
  show "socket_calls (run es s) =
          socket_calls s @
            (if connected s then map Send (key_messages es (pressedKeys s)) else [])"
    if "\<forall>e \<in> set es. direction_key e"
    using key_run_connected [OF p _ that] key_run_disconnected [OF p _ that] by simp
qed

theorem key_events_while_playing_witness:
  "gameState joined = Playing \<and> keyMap (key_code arrowUp) = Some ''up''
   \<and> pressedKeys joined = {} \<and> connected joined
   \<and> socket_calls (run [KeyDown 0 arrowUp, KeyUp arrowUp] joined) =
       socket_calls joined @ [Send (Move ''up''), Send Stop]"
  using key_events_while_playing [of joined arrowUp "''up''" 0 "[KeyDown 0 arrowUp, KeyUp arrowUp]"]
  by (simp add: joined_eq arrowUp_def keyMap_def)

section \<open>Frames of an avatar\<close>

lemma getCurrentFrame_eq:
  "getCurrentFrame a =
     (if fst (frameSetFor a) = [] then None
      else Some \<lparr>image = js_index (fst (frameSetFor a))
                   (js_rem (if isMoving a then animationFrame a else 0)
                      (int (length (fst (frameSetFor a))))),
                 flipHorizontal = snd (frameSetFor a)\<rparr>)"
  by (simp add: getCurrentFrame_def Let_def split: prod.splits)

lemma js_index_rem:
  assumes "xs \<noteq> []" and "0 \<le> k"
  shows "js_index xs (js_rem k (int (length xs))) = Some (xs ! nat (k mod int (length xs)))"
proof -
  have "0 < int (length xs)" using assms by simp
  then have "0 \<le> k mod int (length xs)" "k mod int (length xs) < int (length xs)"
    by simp_all
  then show ?thesis using assms by (simp add: js_index_def js_rem_def)
qed

text \<open>
  C8. Two avatars with the same frames for east (not empty), the same movement flag
  and the same animation frame, one facing west and one facing east, get the same image
  from \<open>getCurrentFrame\<close>, with the flip flag set for west and not set for east; the
  image is the first frame when the avatar stands, and the frame at the animation frame
  modulo the length when it moves and the animation frame is not negative. When the
  sequence chosen for the facing is empty the result is null, and only then.
\<close>

theorem west_mirrors_east:
  "(east (frames a) \<noteq> [] \<and> east (frames b) = east (frames a)
      \<and> isMoving b = isMoving a \<and> animationFrame b = animationFrame a
      \<and> facing a = ''west'' \<and> facing b = ''east'' \<longrightarrow>
      (\<exists>img. getCurrentFrame a = Some \<lparr>image = img, flipHorizontal = True\<rparr>
           \<and> getCurrentFrame b = Some \<lparr>image = img, flipHorizontal = False\<rparr>
           \<and> (\<not> isMoving a \<longrightarrow> img = Some (east (frames a) ! 0))
           \<and> (isMoving a \<and> 0 \<le> animationFrame a \<longrightarrow>
                img = Some (east (frames a) !
                        nat (animationFrame a mod int (length (east (frames a))))))))
   \<and> (fst (frameSetFor a) = [] \<longrightarrow> getCurrentFrame a = None)
   \<and> (fst (frameSetFor a) \<noteq> [] \<longrightarrow> getCurrentFrame a \<noteq> None)"
proof -
  have "\<exists>img. getCurrentFrame a = Some \<lparr>image = img, flipHorizontal = True\<rparr>
           \<and> getCurrentFrame b = Some \<lparr>image = img, flipHorizontal = False\<rparr>
           \<and> (\<not> isMoving a \<longrightarrow> img = Some (east (frames a) ! 0))
           \<and> (isMoving a \<and> 0 \<le> animationFrame a \<longrightarrow>
                img = Some (east (frames a) !
                        nat (animationFrame a mod int (length (east (frames a))))))"
    if h: "east (frames a) \<noteq> []" "east (frames b) = east (frames a)"
      "isMoving b = isMoving a" "animationFrame b = animationFrame a"
      "facing a = ''west''" "facing b = ''east''"
  proof -
    have fa: "frameSetFor a = (east (frames a), True)"
      and fb: "frameSetFor b = (east (frames a), False)"
      using h by (simp_all add: frameSetFor_def)
    have still: "js_index (east (frames a)) (js_rem 0 (int (length (east (frames a)))))
        = Some (east (frames a) ! 0)"
      using js_index_rem [OF h(1), of 0] by simp
    show ?thesis
      using h fa fb still js_index_rem [OF h(1), of "animationFrame a"]
      by (simp add: getCurrentFrame_eq)
  qed
  then show ?thesis
    by (simp add: getCurrentFrame_eq)
qed

theorem west_mirrors_east_witness:
  "getCurrentFrame walker = Some \<lparr>image = Some (Image ''e1''), flipHorizontal = True\<rparr>
   \<and> getCurrentFrame (walker\<lparr>facing := ''east''\<rparr>)
       = Some \<lparr>image = Some (Image ''e1''), flipHorizontal = False\<rparr>
   \<and> getCurrentFrame avatar2 = None"
  using west_mirrors_east [of walker "walker\<lparr>facing := ''east''\<rparr>"]
    west_mirrors_east [of avatar2 avatar2]
  by (auto simp: walker_def avatar2_def frameSetFor_def)

section \<open>Viewport\<close>

lemma clamp_bounds:
  fixes v b :: real
  shows "0 \<le> max 0 (min v b)" and "max 0 (min v b) \<le> max 0 b"
  by auto

lemma updateViewport_eq:
  assumes "myAvatar s = Some a" and "viewportInitialized s" and "truthy (myPlayerId s)"
  shows "viewportOffsetX (updateViewport s) =
           max 0 (min (av_x a - canvas_width s / 2) (worldWidth s - canvas_width s))"
    and "viewportOffsetY (updateViewport s) =
           max 0 (min (av_y a - canvas_height s / 2) (worldHeight s - canvas_height s))"
  using assms by (simp_all add: updateViewport_def)

lemma centerViewport_eq:
  assumes "myAvatar s = Some a" and "\<not> viewportInitialized s"
  shows "viewportInitialized (centerViewportOnMyAvatar s)"
    and "viewportOffsetX (centerViewportOnMyAvatar s) =
           (if worldWidth s \<le> canvas_width s \<and> worldHeight s \<le> canvas_height s then 0
            else max 0 (min (av_x a - canvas_width s / 2) (worldWidth s - canvas_width s)))"
    and "viewportOffsetY (centerViewportOnMyAvatar s) =
           (if worldWidth s \<le> canvas_width s \<and> worldHeight s \<le> canvas_height s then 0
            else max 0 (min (av_y a - canvas_height s / 2) (worldHeight s - canvas_height s)))"
  using assms by (simp_all add: centerViewportOnMyAvatar_def)

lemma myAvatar_resized:
  "myAvatar (s\<lparr>canvas_width := w, canvas_height := h\<rparr>) = myAvatar s"
  by (simp add: myAvatar_def split: option.split)

lemma entering_eq:
  "entering =
     \<lparr>worldWidth = 2048, worldHeight = 2048, myPlayerId = Some ''1'',
      players = [(''1'', avatar1\<lparr>av_x := 1000, av_y := 1000\<rparr>)],
      avatars = [], websocket = Some (WebSocket server_url), connected = True,
      viewportOffsetX = 0, viewportOffsetY = 0, viewportInitialized = False,
      pressedKeys = {}, attackCooldown = 0, attackCooldownTime = 1000,
      attackRange = 50, score = zero_score, gameState = Playing,
      pauseStartTime = 0, totalPauseTime = 0,
      canvas_width = 800, canvas_height = 600,
      localStorage = Missing,
      socket_calls = [Connect (WebSocket server_url), Send (JoinGame ''Tinotenda'')],
      timers = [], next_oid = 1\<rparr>"
  by (simp add: entering_def started_eq onopen_def joinGame_def new_Avatar_def player1_def
      avatar1_def)

lemma entered_eq: "entered = centerViewportOnMyAvatar entering"
  by (simp add: entered_def entering_def handleJoinGame_def onopen_def joinGame_def started_eq)

text \<open>
  C4. Where the avatar of the local player is in the map: the first centring sets the
  guard and leaves an offset between 0 and the larger of 0 and world size minus canvas
  size, in both directions; once the guard is set (and the id of the player is truthy)
  \<open>updateViewport\<close> leaves such an offset again, also after a resize, for the new
  size of the canvas. For a world of 2048 by 2048, a canvas of 800 by 600 and the
  avatar at (1000, 1000) the first centring gives the offset (600, 700).
\<close>

theorem viewport_within_world:
  "myAvatar s = Some a \<longrightarrow>
     (\<not> viewportInitialized s \<longrightarrow>
        viewportInitialized (centerViewportOnMyAvatar s)
        \<and> 0 \<le> viewportOffsetX (centerViewportOnMyAvatar s)
        \<and> viewportOffsetX (centerViewportOnMyAvatar s) \<le> max 0 (worldWidth s - canvas_width s)
        \<and> 0 \<le> viewportOffsetY (centerViewportOnMyAvatar s)
        \<and> viewportOffsetY (centerViewportOnMyAvatar s) \<le> max 0 (worldHeight s - canvas_height s))
     \<and> (viewportInitialized s \<and> truthy (myPlayerId s) \<longrightarrow>
        0 \<le> viewportOffsetX (updateViewport s)
        \<and> viewportOffsetX (updateViewport s) \<le> max 0 (worldWidth s - canvas_width s)
        \<and> 0 \<le> viewportOffsetY (updateViewport s)
        \<and> viewportOffsetY (updateViewport s) \<le> max 0 (worldHeight s - canvas_height s)
        \<and> 0 \<le> viewportOffsetX (step (Resize w h) s)
        \<and> viewportOffsetX (step (Resize w h) s) \<le> max 0 (worldWidth s - w)
        \<and> 0 \<le> viewportOffsetY (step (Resize w h) s)
        \<and> viewportOffsetY (step (Resize w h) s) \<le> max 0 (worldHeight s - h))
     \<and> (\<not> viewportInitialized s \<and> worldWidth s = 2048 \<and> worldHeight s = 2048
          \<and> canvas_width s = 800 \<and> canvas_height s = 600 \<and> av_x a = 1000 \<and> av_y a = 1000 \<longrightarrow>
        viewportOffsetX (centerViewportOnMyAvatar s) = 600
        \<and> viewportOffsetY (centerViewportOnMyAvatar s) = 700)"
proof (intro impI conjI)
  assume a: "myAvatar s = Some a"
  {
    assume n: "\<not> viewportInitialized s"
    note c = centerViewport_eq [OF a n]
    show "viewportInitialized (centerViewportOnMyAvatar s)" by (rule c(1))
    show "0 \<le> viewportOffsetX (centerViewportOnMyAvatar s)"
      unfolding c(2) by simp
    show "viewportOffsetX (centerViewportOnMyAvatar s) \<le> max 0 (worldWidth s - canvas_width s)"
      unfolding c(2) by auto
    show "0 \<le> viewportOffsetY (centerViewportOnMyAvatar s)"
      unfolding c(3) by simp
    show "viewportOffsetY (centerViewportOnMyAvatar s) \<le> max 0 (worldHeight s - canvas_height s)"
      unfolding c(3) by auto
  }
  {
    assume i: "viewportInitialized s \<and> truthy (myPlayerId s)"
    then have i1: "viewportInitialized s" and i2: "truthy (myPlayerId s)" by simp_all
    note u = updateViewport_eq [OF a i1 i2]
    show "0 \<le> viewportOffsetX (updateViewport s)"
      unfolding u(1) by (rule clamp_bounds(1))
    show "viewportOffsetX (updateViewport s) \<le> max 0 (worldWidth s - canvas_width s)"
      unfolding u(1) by (rule clamp_bounds(2))
    show "0 \<le> viewportOffsetY (updateViewport s)"
      unfolding u(2) by (rule clamp_bounds(1))
    show "viewportOffsetY (updateViewport s) \<le> max 0 (worldHeight s - canvas_height s)"
      unfolding u(2) by (rule clamp_bounds(2))
    let ?r = "s\<lparr>canvas_width := w, canvas_height := h\<rparr>"
    have r: "myAvatar ?r = Some a" "viewportInitialized ?r" "truthy (myPlayerId ?r)"
      using a i1 i2 by (simp_all add: myAvatar_resized)
    note v = updateViewport_eq [OF r]
    have st: "step (Resize w h) s = updateViewport ?r" by (simp add: onresize_def)
    show "0 \<le> viewportOffsetX (step (Resize w h) s)"
      unfolding st v(1) by (rule clamp_bounds(1))
    show "viewportOffsetX (step (Resize w h) s) \<le> max 0 (worldWidth s - w)"
      unfolding st v(1) using clamp_bounds(2) [of _ "worldWidth s - w"] by simp
    show "0 \<le> viewportOffsetY (step (Resize w h) s)"
      unfolding st v(2) by (rule clamp_bounds(1))
    show "viewportOffsetY (step (Resize w h) s) \<le> max 0 (worldHeight s - h)"
      unfolding st v(2) using clamp_bounds(2) [of _ "worldHeight s - h"] by simp
  }
  {
    assume e: "\<not> viewportInitialized s \<and> worldWidth s = 2048 \<and> worldHeight s = 2048
          \<and> canvas_width s = 800 \<and> canvas_height s = 600 \<and> av_x a = 1000 \<and> av_y a = 1000"
    then have n: "\<not> viewportInitialized s" by simp
    note c = centerViewport_eq [OF a n]
    show "viewportOffsetX (centerViewportOnMyAvatar s) = 600"
      unfolding c(2) using e by simp
    show "viewportOffsetY (centerViewportOnMyAvatar s) = 700"
      unfolding c(3) using e by simp
  }
qed

theorem viewport_within_world_witness:
  "myAvatar entering = Some (avatar1\<lparr>av_x := 1000, av_y := 1000\<rparr>)
   \<and> \<not> viewportInitialized entering
   \<and> viewportOffsetX entered = 600 \<and> viewportOffsetY entered = 700
   \<and> myAvatar entered = Some (avatar1\<lparr>av_x := 1000, av_y := 1000\<rparr>)
   \<and> viewportInitialized entered \<and> truthy (myPlayerId entered)
   \<and> 0 \<le> viewportOffsetX (step (Resize 2000 1000) entered)
   \<and> viewportOffsetX (step (Resize 2000 1000) entered) \<le> 48
   \<and> 0 \<le> viewportOffsetY (step (Resize 2000 1000) entered)
   \<and> viewportOffsetY (step (Resize 2000 1000) entered) \<le> 1048"
proof -
  have m: "myAvatar entering = Some (avatar1\<lparr>av_x := 1000, av_y := 1000\<rparr>)"
    and n: "\<not> viewportInitialized entering"
    and sz: "worldWidth entering = 2048" "worldHeight entering = 2048"
      "canvas_width entering = 800" "canvas_height entering = 600"
      "truthy (myPlayerId entering)"
    by (simp_all add: entering_eq myAvatar_def truthy_def)
  have pos: "av_x (avatar1\<lparr>av_x := 1000, av_y := 1000\<rparr>) = 1000"
    "av_y (avatar1\<lparr>av_x := 1000, av_y := 1000\<rparr>) = 1000"
    by simp_all
  have m': "myAvatar entered = Some (avatar1\<lparr>av_x := 1000, av_y := 1000\<rparr>)"
    and i': "viewportInitialized entered" and t': "truthy (myPlayerId entered)"
    and sz': "worldWidth entered = 2048" "worldHeight entered = 2048"
    using m n sz
    by (simp_all add: entered_eq centerViewportOnMyAvatar_def myAvatar_def truthy_def
        split: option.splits)
  show ?thesis
    using viewport_within_world [of entering "avatar1\<lparr>av_x := 1000, av_y := 1000\<rparr>" 0 0]
      viewport_within_world [of entered "avatar1\<lparr>av_x := 1000, av_y := 1000\<rparr>" 2000 1000]
      m n sz pos m' i' t' sz'
    by (simp add: entered_eq)
qed

section \<open>Attack cooldown\<close>

lemma same_cooldown_refl: "same_cooldown s s"
  by (simp add: same_cooldown_def)

lemma same_cooldown_trans: "same_cooldown s t \<Longrightarrow> same_cooldown t u \<Longrightarrow> same_cooldown s u"
  by (simp add: same_cooldown_def)

lemma same_cooldown_score:
  "same_cooldown s (addKill s)" "same_cooldown s (addDeath s)" "same_cooldown s (resetScore s)"
  by (simp_all add: same_cooldown_def addKill_def addDeath_def resetScore_def saveScore_def
      updateTotalScore_def)

lemma same_cooldown_simulatePlayerDeath: "same_cooldown s (simulatePlayerDeath t s)"
  by (simp add: same_cooldown_def simulatePlayerDeath_def split: option.split)

lemma same_cooldown_keys:
  "same_cooldown s (handleKeyDown ev s)" "same_cooldown s (handleKeyUp ev s)"
  by (simp_all add: same_cooldown_def handleKeyDown_def handleKeyUp_def sendMoveCommand_def
      sendStopCommand_def Let_def split: option.split)

lemma same_cooldown_pause:
  "same_cooldown s (togglePause now s)" "same_cooldown s (stopGame s)"
  by (simp_all add: same_cooldown_def togglePause_def pauseGame_def resumeGame_def
      sendStopCommand_def stopGame_def Let_def split: option.split)

lemma same_cooldown_storeAvatars: "same_cooldown s (storeAvatars l s)"
proof (induction l arbitrary: s)
  case Nil
  show ?case by (simp add: same_cooldown_refl)
next
  case (Cons p l)
  obtain k d where p: "p = (k, d)" by (cases p)
  have "same_cooldown s (s\<lparr>avatars := AList.update k d (avatars s)\<rparr>)"
    by (simp add: same_cooldown_def)
  then show ?case
    unfolding p storeAvatars.simps by (rule same_cooldown_trans) (rule Cons.IH)
qed

lemma same_cooldown_createPlayers: "same_cooldown s (createPlayers l s)"
proof (induction l arbitrary: s)
  case Nil
  show ?case by (simp add: same_cooldown_refl)
next
  case (Cons p l)
  obtain k d where p: "p = (k, d)" by (cases p)
  show ?case
    unfolding p createPlayers.simps
    by (rule same_cooldown_trans [OF _ Cons.IH])
      (simp add: same_cooldown_def Let_def split: option.split)
qed

lemma same_cooldown_movePlayers: "same_cooldown s (movePlayers l s)"
proof (induction l arbitrary: s)
  case Nil
  show ?case by (simp add: same_cooldown_refl)
next
  case (Cons p l)
  obtain k d where p: "p = (k, d)" by (cases p)
  show ?case
    unfolding p movePlayers.simps
    by (rule same_cooldown_trans [OF _ Cons.IH])
      (simp add: same_cooldown_def split: option.split)
qed

lemma same_cooldown_viewport:
  "same_cooldown s (centerViewportOnMyAvatar s)" "same_cooldown s (onresize w h s)"
  by (simp_all add: same_cooldown_def centerViewportOnMyAvatar_def onresize_def
      updateViewport_def split: option.split)

lemma same_cooldown_handleJoinGame: "same_cooldown s (handleJoinGame ok p avs pls s)"
proof (cases ok)
  case False
  then show ?thesis by (simp add: handleJoinGame_def same_cooldown_refl)
next
  case True
  let ?s1 = "s\<lparr>myPlayerId := Some p\<rparr>"
  let ?s2 = "case avs of None \<Rightarrow> ?s1 | Some l \<Rightarrow> storeAvatars l ?s1"
  let ?s3 = "case pls of None \<Rightarrow> ?s2 | Some l \<Rightarrow> createPlayers l ?s2"
  have 1: "same_cooldown s ?s1" by (simp add: same_cooldown_def)
  have 2: "same_cooldown ?s1 ?s2"
    by (cases avs) (simp_all add: same_cooldown_refl same_cooldown_storeAvatars)
  have 3: "same_cooldown ?s2 ?s3"
    by (cases pls) (simp_all add: same_cooldown_refl same_cooldown_createPlayers)
  have "same_cooldown s (centerViewportOnMyAvatar ?s3)"
    using 1 2 3 same_cooldown_viewport(1) [of ?s3] by (blast intro: same_cooldown_trans)
  then show ?thesis using True by (simp add: handleJoinGame_def Let_def)
qed

lemma same_cooldown_handleMessage: "same_cooldown s (handleMessage m s)"
proof (cases m)
  case (JoinGameResult ok p avs pls)
  then show ?thesis by (simp add: same_cooldown_handleJoinGame)
next
  case (PlayerJoined pd ad)
  then show ?thesis
    by (simp add: same_cooldown_def handlePlayerJoined_def Let_def split: option.split)
next
  case (PlayersMoved pls)
  then show ?thesis
    by (cases pls)
      (simp_all add: handlePlayersMoved_def same_cooldown_refl same_cooldown_movePlayers)
next
  case (PlayerLeft p)
  then show ?thesis by (simp add: same_cooldown_def handlePlayerLeft_def)
next
  case (AttackResult ok t k)
  have "same_cooldown s (simulatePlayerDeath t (addKill s))"
    by (rule same_cooldown_trans [OF same_cooldown_score(1) same_cooldown_simulatePlayerDeath])
  then show ?thesis
    using AttackResult by (simp add: handleAttack_def same_cooldown_refl same_cooldown_score)
next
  case (PlayerDied p)
  show ?thesis
  proof (cases "map_of (players s) p")
    case None
    then show ?thesis using PlayerDied by (simp add: handlePlayerDied_def same_cooldown_refl)
  next
    case (Some a)
    let ?s1 = "s\<lparr>players := AList.update p (a\<lparr>isDead := True\<rparr>) (players s)\<rparr>"
    have 1: "same_cooldown s ?s1" by (simp add: same_cooldown_def)
    have "same_cooldown s (addDeath ?s1)"
      by (rule same_cooldown_trans [OF 1 same_cooldown_score(2)])
    then show ?thesis
      using PlayerDied Some 1 by (simp add: handlePlayerDied_def Let_def)
  qed
next
  case (PlayerRespawned p x y)
  then show ?thesis
    by (simp add: same_cooldown_def handlePlayerRespawned_def split: option.split)
next
  case UnknownAction
  then show ?thesis by (simp add: same_cooldown_refl)
qed

lemma same_cooldown_fire: "same_cooldown s (fire t (s\<lparr>timers := ts\<rparr>))"
proof -
  have 1: "same_cooldown s (s\<lparr>timers := ts\<rparr>)" by (simp add: same_cooldown_def)
  have "same_cooldown (s\<lparr>timers := ts\<rparr>) (fire t (s\<lparr>timers := ts\<rparr>))"
  proof (cases t)
    case (AttackFallback tid)
    have "same_cooldown (s\<lparr>timers := ts\<rparr>)
        (simulatePlayerDeath tid (addKill (s\<lparr>timers := ts\<rparr>)))"
      by (rule same_cooldown_trans [OF same_cooldown_score(1) same_cooldown_simulatePlayerDeath])
    then show ?thesis
      using AttackFallback by (simp add: attackFallback_def same_cooldown_refl)
  next
    case (SimulatedRespawn n)
    then show ?thesis by (simp add: simulatedRespawn_def same_cooldown_def)
  qed
  with 1 show ?thesis by (rule same_cooldown_trans)
qed

lemma update_cooldown:
  "attackCooldown (update s) =
     (if 0 \<le> attackCooldown s then max 0 (attackCooldown s - 16) else attackCooldown s)"
  "attackCooldownTime (update s) = attackCooldownTime s"
  "attackRange (update s) = attackRange s"
  by (simp_all add: update_def Let_def)

lemma restart_cooldown:
  "attackCooldown (restartGame s) = 0"
  "attackCooldownTime (restartGame s) = attackCooldownTime s"
  "attackRange (restartGame s) = attackRange s"
  by (simp_all add: restartGame_def connectToServer_def saveScore_def split: option.split)

lemma control_cooldown:
  "same_cooldown s (handleGameControlKeys now ev s)
   \<or> handleGameControlKeys now ev s = restartGame s"
  by (simp add: handleGameControlKeys_def same_cooldown_pause same_cooldown_score
      same_cooldown_refl)

lemma click_cooldown:
  "same_cooldown s (handleCanvasClick cx cy l t s)
   \<or> (\<exists>tid. connected s \<and> attackCooldown s \<le> 0
        \<and> handleCanvasClick cx cy l t s = attackPlayer tid s)"
  by (auto simp: handleCanvasClick_def screenToWorld_def same_cooldown_refl split: option.split)

lemma attackPlayer_cooldown:
  "connected s \<Longrightarrow> attackCooldown (attackPlayer tid s) = attackCooldownTime s"
  "attackCooldownTime (attackPlayer tid s) = attackCooldownTime s"
  "attackRange (attackPlayer tid s) = attackRange s"
  by (simp_all add: attackPlayer_def)

text \<open>What an event of the loop does to the cooldown: one of four things.\<close>

lemma step_cooldown_cases:
  "same_cooldown s (step e s)
   \<or> (e = Frame \<and> attackCooldownTime (step e s) = attackCooldownTime s
        \<and> attackCooldown (step e s) =
            (if 0 \<le> attackCooldown s then max 0 (attackCooldown s - 16) else attackCooldown s))
   \<or> (attackCooldown (step e s) = 0 \<and> attackCooldownTime (step e s) = attackCooldownTime s
        \<and> (\<exists>now ev. e = KeyDown now ev))
   \<or> (\<exists>cx cy l t tid. e = Click cx cy l t \<and> connected s \<and> attackCooldown s \<le> 0
        \<and> step e s = attackPlayer tid s)"
proof (cases e)
  case (KeyDown now ev)
  have 1: "same_cooldown s (handleKeyDown ev s)" by (rule same_cooldown_keys)
  from control_cooldown [of "handleKeyDown ev s" now ev]
  show ?thesis
  proof
    assume "same_cooldown (handleKeyDown ev s) (handleGameControlKeys now ev (handleKeyDown ev s))"
    with 1 have "same_cooldown s (step e s)"
      unfolding KeyDown step.simps by (rule same_cooldown_trans)
    then show ?thesis by simp
  next
    assume r: "handleGameControlKeys now ev (handleKeyDown ev s) = restartGame (handleKeyDown ev s)"
    have "attackCooldown (step e s) = 0 \<and> attackCooldownTime (step e s) = attackCooldownTime s"
      using 1 by (simp add: KeyDown r restart_cooldown same_cooldown_def)
    then show ?thesis using KeyDown by simp
  qed
next
  case (KeyUp ev)
  then show ?thesis by (simp add: same_cooldown_keys)
next
  case (Click cx cy l t)
  from click_cooldown [of s cx cy l t] show ?thesis
    using Click by fastforce
next
  case Frame
  then show ?thesis by (simp add: update_cooldown)
next
  case (Resize w h)
  then show ?thesis by (simp add: same_cooldown_viewport)
next
  case SocketOpen
  then show ?thesis by (simp add: same_cooldown_def onopen_def joinGame_def)
next
  case SocketClosed
  then show ?thesis by (simp add: same_cooldown_def onclose_def)
next
  case (Message m)
  then show ?thesis by (simp add: same_cooldown_handleMessage)
next
  case (TimerFired i)
  then show ?thesis by (simp add: same_cooldown_fire same_cooldown_refl)
qed



lemma distance_simps:
  "distance a 0 0 0 = \<bar>a\<bar>" "distance 0 a 0 0 = \<bar>a\<bar>" "distance a b a b = 0"
  by (simp_all add: distance_def)

lemma attacking_eq:
  "attacking =
     joined\<lparr>socket_calls := socket_calls joined @ [Send (Attack ''2'')],
            attackCooldown := 1000,
            timers := [(AttackFallback ''2'', 1000)]\<rparr>"
  by (simp add: attacking_def joined_eq handleCanvasClick_def truthy_def screenToWorld_def
      findPlayerInRange_def avatar1_def avatar2_def distance_simps attackPlayer_def)

text \<open>
  C9. A frame of the render loop replaces a cooldown \<open>c\<close> that is not negative by
  \<open>max 0 (c - 16)\<close>. No event makes a cooldown negative that was not, and none changes
  the cooldown time. An event that increases the cooldown is a click whose attack is
  issued by \<open>attackPlayer\<close>, and the cooldown is then the cooldown time, which
  \<open>attackPlayer\<close> sets whenever the client is connected. In every run of events from a
  client that the constructor made, the cooldown time is 1000 and the cooldown is
  between 0 and 1000.
\<close>

theorem cooldown_countdown:
  "(0 \<le> attackCooldown s \<longrightarrow>
      attackCooldown (step Frame s) = max 0 (attackCooldown s - 16))
   \<and> (0 \<le> attackCooldown s \<and> 0 \<le> attackCooldownTime s \<longrightarrow>
      0 \<le> attackCooldown (step e s) \<and> attackCooldownTime (step e s) = attackCooldownTime s)
   \<and> (0 \<le> attackCooldown s \<and> attackCooldown s < attackCooldown (step e s) \<longrightarrow>
      (\<exists>cx cy l t tid. e = Click cx cy l t \<and> step e s = attackPlayer tid s)
      \<and> attackCooldown (step e s) = attackCooldownTime s)
   \<and> (connected s \<longrightarrow> attackCooldown (attackPlayer tid s) = attackCooldownTime s)
   \<and> (new_GameClient w h item = Inr s0 \<longrightarrow>
      attackCooldownTime (run es s0) = 1000 \<and> 0 \<le> attackCooldown (run es s0)
      \<and> attackCooldown (run es s0) \<le> 1000)"
proof -
  have inv: "0 \<le> attackCooldown (step e s) \<and> attackCooldown (step e s) \<le> attackCooldownTime s
      \<and> attackCooldownTime (step e s) = attackCooldownTime s"
    if "0 \<le> attackCooldown s" "attackCooldown s \<le> attackCooldownTime s" for e s
    using step_cooldown_cases [of s e] that
    by (auto simp: same_cooldown_def attackPlayer_cooldown)
  have a: "0 \<le> attackCooldown (step e s) \<and> attackCooldownTime (step e s) = attackCooldownTime s"
    if "0 \<le> attackCooldown s" "0 \<le> attackCooldownTime s"
    using step_cooldown_cases [of s e] that
    by (auto simp: same_cooldown_def attackPlayer_cooldown)
  have b: "(\<exists>cx cy l t tid. e = Click cx cy l t \<and> step e s = attackPlayer tid s)
      \<and> attackCooldown (step e s) = attackCooldownTime s"
    if "0 \<le> attackCooldown s" "attackCooldown s < attackCooldown (step e s)"
    using step_cooldown_cases [of s e] that
    by (auto simp: same_cooldown_def attackPlayer_cooldown)
  have runs: "attackCooldownTime (run es s) = 1000 \<and> 0 \<le> attackCooldown (run es s)
      \<and> attackCooldown (run es s) \<le> 1000"
    if "attackCooldownTime s = 1000" "0 \<le> attackCooldown s" "attackCooldown s \<le> 1000" for es s
    using that
  proof (induction es arbitrary: s)
    case Nil
    then show ?case by simp
  next
    case (Cons e es)
    show ?case
      using inv [of s e] Cons.prems Cons.IH [of "step e s"] by simp
  qed
  have c: "attackCooldownTime (run es s0) = 1000 \<and> 0 \<le> attackCooldown (run es s0)
      \<and> attackCooldown (run es s0) \<le> 1000"
    if "new_GameClient w h item = Inr s0"
  proof -
    have "attackCooldownTime s0 = 1000 \<and> attackCooldown s0 = 0"
      using that
      by (auto simp: new_GameClient_def loadScore_def blank_client_def connectToServer_def
          updateTotalScore_def split: persisted.splits parsed.splits)
    then show ?thesis using runs [of s0 es] by simp
  qed
  show ?thesis
    using a b c by (simp add: update_cooldown attackPlayer_cooldown)
qed

theorem cooldown_countdown_witness:
  "new_GameClient 800 600 Missing = Inr started
   \<and> connected joined \<and> attackCooldown joined = 0
   \<and> attackCooldown (step (Click 40 0 0 0) joined) = 1000
   \<and> attackCooldown attacking = 1000 \<and> attackCooldownTime attacking = 1000
   \<and> attackCooldown (step Frame attacking) = 984
   \<and> attackCooldownTime (run [SocketOpen, Frame] started) = 1000
   \<and> 0 \<le> attackCooldown (run [SocketOpen, Frame] started)"
proof -
  have n: "new_GameClient 800 600 Missing = Inr started"
    by (simp add: new_GameClient_def loadScore_def started_def blank_client_def)
  have j: "connected joined" "attackCooldown joined = 0" "attackCooldownTime joined = 1000"
    by (simp_all add: joined_eq)
  have k: "attackCooldown attacking = 1000" "attackCooldownTime attacking = 1000"
    by (simp_all add: attacking_eq joined_eq)
  note t = cooldown_countdown [of attacking Frame "''2''" 800 600 Missing started
      "[SocketOpen, Frame]"]
  note u = cooldown_countdown [of joined "Click 40 0 0 0" "''2''" 800 600 Missing started "[]"]
  have f: "attackCooldown (step Frame attacking) = max 0 (attackCooldown attacking - 16)"
    using t [THEN conjunct1] k by simp
  have r: "attackCooldownTime (run [SocketOpen, Frame] started) = 1000
      \<and> 0 \<le> attackCooldown (run [SocketOpen, Frame] started)
      \<and> attackCooldown (run [SocketOpen, Frame] started) \<le> 1000"
    using t [THEN conjunct2, THEN conjunct2, THEN conjunct2, THEN conjunct2] n by blast
  have g: "attackCooldown joined < attackCooldown (step (Click 40 0 0 0) joined)"
    unfolding attacking_def [symmetric] using j k by simp
  have z: "0 \<le> attackCooldown joined" using j(2) by simp
  have c: "attackCooldown (step (Click 40 0 0 0) joined) = attackCooldownTime joined"
    using u [THEN conjunct2, THEN conjunct2, THEN conjunct1] z g by blast
  show ?thesis
    using n j k f r c by simp
qed

section \<open>The target of a click\<close>













section \<open>Dead avatars as targets\<close>







section \<open>The fallback of an attack\<close>

lemma run_append: "run (es @ fs) s = run fs (run es s)"
  by (induction es arbitrary: s) simp_all

lemma frames_cooldown:
  "0 \<le> attackCooldown s \<Longrightarrow>
   run (replicate n Frame) s = s\<lparr>attackCooldown := max 0 (attackCooldown s - 16 * int n)\<rparr>"
proof (induction n arbitrary: s)
  case 0
  then show ?case by simp
next
  case (Suc n)
  have "0 \<le> attackCooldown (update s)"
    using Suc.prems by (simp add: update_cooldown)
  from Suc.IH [OF this] show ?case
    using Suc.prems by (auto simp: update_def Let_def max_def)
qed

lemma attackFallback_eq:
  "attackFallback targetId s =
     (if 0 < attackCooldown s then simulatePlayerDeath targetId (addKill s) else s)"
  by (simp add: attackFallback_def)

lemma handleAttack_cooldown:
  "attackCooldown (handleAttack success targetId kill s) = attackCooldown s"
  using same_cooldown_handleMessage [of s "AttackResult success targetId kill"]
  by (simp add: same_cooldown_def)

text \<open>
  C1. The claim is right about the delay: \<open>attackPlayer\<close> schedules its fallback with
  1000 ms. It is not what the code does with an answer of the server. In the session
  \<open>joined\<close> the client clicks on player 2, the server answers the attack with a kill,
  sixty frames pass and the timeout fires: the cooldown is 40 then, since
  \<open>handleAttack\<close> never clears it, and the fallback credits a second kill, marks
  player 2 dead and schedules the respawn.
\<close>

theorem fallback_fires_after_server_result:
  "timers attacking = [(AttackFallback ''2'', 1000)]
   \<and> score (run [Click 40 0 0 0, Message (AttackResult True ''2'' True)] joined) =
       plain_score 1 0 1
   \<and> attackCooldown
       (run ([Click 40 0 0 0, Message (AttackResult True ''2'' True)] @ replicate 60 Frame) joined)
       = 40
   \<and> score (run answered_attack joined) = plain_score 2 0 2
   \<and> map_of (players (run answered_attack joined)) ''2'' = Some (avatar2\<lparr>isDead := True\<rparr>)
   \<and> timers (run answered_attack joined) = [(SimulatedRespawn 1, 3000)]
   \<and> socket_calls (run answered_attack joined) = socket_calls joined @ [Send (Attack ''2'')]"
proof -
  let ?hit = "handleAttack True ''2'' True attacking"
  let ?x = "attacking\<lparr>score := plain_score 1 0 1,
      localStorage := Parsed (PObject (plain_score 1 0 1)),
      attackCooldown := 40, timers := []\<rparr>"
  have c: "run [Click 40 0 0 0, Message (AttackResult True ''2'' True)] joined = ?hit"
    by (simp add: attacking_def)
  have z: "score attacking = plain_score 0 0 0"
    by (simp add: attacking_eq joined_eq zero_score_def)
  have hit: "?hit = attacking\<lparr>score := plain_score 1 0 1,
      localStorage := Parsed (PObject (plain_score 1 0 1))\<rparr>"
    using addKill_plain [of attacking 0 0] z by (simp add: handleAttack_def)
  have cd: "attackCooldown ?hit = 1000"
    by (simp add: handleAttack_cooldown attacking_eq)
  have fr: "run (replicate 60 Frame) ?hit = ?hit\<lparr>attackCooldown := 40\<rparr>"
    using frames_cooldown [of ?hit 60] cd by simp
  have all: "run answered_attack joined = step (TimerFired 0) (?hit\<lparr>attackCooldown := 40\<rparr>)"
    unfolding answered_attack_def run_append c fr by simp
  have st: "step (TimerFired 0) (?hit\<lparr>attackCooldown := 40\<rparr>) =
      simulatePlayerDeath ''2'' (addKill ?x)"
    unfolding hit by (simp add: attacking_eq attackFallback_def)
  have ak: "addKill ?x = ?x\<lparr>score := plain_score 2 0 2,
      localStorage := Parsed (PObject (plain_score 2 0 2))\<rparr>"
    using addKill_plain [of ?x 1 0] by simp
  have fin: "step (TimerFired 0) (?hit\<lparr>attackCooldown := 40\<rparr>) =
      joined\<lparr>socket_calls := socket_calls joined @ [Send (Attack ''2'')],
             attackCooldown := 40,
             score := plain_score 2 0 2,
             localStorage := Parsed (PObject (plain_score 2 0 2)),
             players := [(''1'', avatar1), (''2'', avatar2\<lparr>isDead := True\<rparr>)],
             timers := [(SimulatedRespawn 1, 3000)]\<rparr>"
    unfolding st ak
    by (simp add: attacking_eq joined_eq simulatePlayerDeath_def avatar2_def)
  have 1: "timers attacking = [(AttackFallback ''2'', 1000)]"
    by (simp add: attacking_eq)
  have 2: "score (run [Click 40 0 0 0, Message (AttackResult True ''2'' True)] joined) =
       plain_score 1 0 1"
    unfolding c hit by simp
  have 3: "attackCooldown
       (run ([Click 40 0 0 0, Message (AttackResult True ''2'' True)] @ replicate 60 Frame) joined)
       = 40"
    unfolding run_append c fr by simp
  show ?thesis
    unfolding all fin using 1 2 3 by (simp add: joined_eq)
qed

end
